theory Spec2Isabelle
  imports Complex_Main
begin

section \<open>Numbers\<close>

text \<open>
  A JavaScript \<open>number\<close> is modelled as a \<^typ>\<open>real\<close>: arithmetic is exact, so the
  rounding error of IEEE doubles, \<open>NaN\<close> and the infinities are outside the model.
  \<open>Math.floor\<close>, \<open>Math.ceil\<close> and \<open>Math.round\<close> (which rounds a half towards
  plus infinity) return numbers again.
\<close>

definition Math_floor :: "real \<Rightarrow> real" where
  "Math_floor x = of_int \<lfloor>x\<rfloor>"

definition Math_ceil :: "real \<Rightarrow> real" where
  "Math_ceil x = of_int \<lceil>x\<rceil>"

definition Math_round :: "real \<Rightarrow> real" where
  "Math_round x = of_int \<lfloor>x + 1 / 2\<rfloor>"

section \<open>Bitrate calculator (\<open>useTranscoder.ts\<close>)\<close>

datatype calc_error = InvalidDuration | InvalidTargetSize

text \<open>
  \<open>calculateBitrate(targetSizeMB, durationSeconds, audioBitrateKbps = 128)\<close>: the two
  \<open>throw\<close>s are the \<open>Inl\<close> results; the value returned is in kbps.
\<close>

definition calculateBitrate :: "real \<Rightarrow> real \<Rightarrow> real \<Rightarrow> calc_error + real" where
  "calculateBitrate targetSizeMB durationSeconds audioBitrateKbps =
     (if durationSeconds \<le> 0 then Inl InvalidDuration
      else if targetSizeMB \<le> 0 then Inl InvalidTargetSize
      else
        let BUFFER_MIN_MB = 0.244140625;
            BUFFER_MAX_MB = 2;
            bufferMB = min BUFFER_MAX_MB (max BUFFER_MIN_MB (targetSizeMB * 0.02));
            adjustedTargetSizeMB = max 0.1 (targetSizeMB - bufferMB);
            targetSizeKbits = adjustedTargetSizeMB * 8192;
            totalBitrateKbps = targetSizeKbits / durationSeconds;
            videoBitrateKbps = totalBitrateKbps - audioBitrateKbps;
            bitrateWithOverhead = videoBitrateKbps * 0.95
        in Inr (Math_floor bitrateWithOverhead))"

text \<open>\<open>calculateMinimumSize(durationSeconds)\<close>.\<close>

definition calculateMinimumSize :: "real \<Rightarrow> real" where
  "calculateMinimumSize durationSeconds =
     (let minVideoBitrateKbps = 100;
          audioBitrateKbps = 128;
          totalBitrateKbps = minVideoBitrateKbps + audioBitrateKbps;
          bitrateWithOverhead = totalBitrateKbps / 0.95;
          minSizeMB = (bitrateWithOverhead * durationSeconds) / 8192
      in Math_ceil (minSizeMB * 10) / 10)"


section \<open>Resolution planner (\<open>lib/resolution.ts\<close>)\<close>

datatype OutputResolution = Original | R1080p | R720p | R480p

record dimensions =
  width :: real
  height :: real

definition RESOLUTION_PRESETS :: "OutputResolution \<Rightarrow> dimensions option" where
  "RESOLUTION_PRESETS r =
     (case r of
        Original \<Rightarrow> None
      | R1080p \<Rightarrow> Some \<lparr>width = 1920, height = 1080\<rparr>
      | R720p \<Rightarrow> Some \<lparr>width = 1280, height = 720\<rparr>
      | R480p \<Rightarrow> Some \<lparr>width = 854, height = 480\<rparr>)"

text \<open>\<open>getTargetDimensions\<close>; \<open>None\<close> is JavaScript's \<open>undefined\<close>.\<close>

definition getTargetDimensions ::
  "OutputResolution \<Rightarrow> real \<Rightarrow> real \<Rightarrow> dimensions option" where
  "getTargetDimensions outputResolution inputWidth inputHeight =
     (if outputResolution = Original then None
      else case RESOLUTION_PRESETS outputResolution of
        None \<Rightarrow> None
      | Some preset \<Rightarrow>
          if inputWidth \<le> width preset \<and> inputHeight \<le> height preset then None
          else
            let aspectRatio = inputWidth / inputHeight in
            if inputWidth \<ge> inputHeight then
              (let width1 = min (width preset) inputWidth;
                   height1 = Math_round (width1 / aspectRatio)
               in if height1 > height preset then
                    (let height2 = min (height preset) inputHeight;
                         width2 = Math_round (height2 * aspectRatio)
                     in Some \<lparr>width = width2, height = height2\<rparr>)
                  else Some \<lparr>width = width1, height = height1\<rparr>)
            else
              (let height1 = min (height preset) inputHeight;
                   width1 = Math_round (height1 * aspectRatio)
               in if width1 > width preset then
                    (let width2 = min (width preset) inputWidth;
                         height2 = Math_round (width2 / aspectRatio)
                     in Some \<lparr>width = width2, height = height2\<rparr>)
                  else Some \<lparr>width = width1, height = height1\<rparr>))"

section \<open>Quality estimation (\<open>useTranscoder.ts\<close>)\<close>

text \<open>
  An optional numeric argument is a \<^typ>\<open>real option\<close>. JavaScript's \<open>a || d\<close> and
  \<open>a && b\<close> treat \<open>undefined\<close> and \<open>0\<close> alike as false.
\<close>

definition js_or :: "real option \<Rightarrow> real \<Rightarrow> real" where
  "js_or v d = (case v of None \<Rightarrow> d | Some x \<Rightarrow> if x = 0 then d else x)"

definition both_truthy :: "real option \<Rightarrow> real option \<Rightarrow> (real \<times> real) option" where
  "both_truthy a b =
     (case (a, b) of
        (Some x, Some y) \<Rightarrow> if x \<noteq> 0 \<and> y \<noteq> 0 then Some (x, y) else None
      | _ \<Rightarrow> None)"

text \<open>
  The \<open>if\<close> chain of \<open>calculateTargetSizeForQuality\<close> that recovers the bitrate per
  pixel from a quality score.
\<close>

definition bitratePerPixelForScore :: "real \<Rightarrow> real" where
  "bitratePerPixelForScore qualityScore =
     (if qualityScore \<ge> 90 then 0.15 + ((qualityScore - 90) / 10) * 0.10
      else if qualityScore \<ge> 70 then 0.10 + ((qualityScore - 70) / 20) * 0.05
      else if qualityScore \<ge> 50 then 0.06 + ((qualityScore - 50) / 20) * 0.04
      else if qualityScore \<ge> 30 then 0.03 + ((qualityScore - 30) / 20) * 0.03
      else (qualityScore / 30) * 0.03)"

definition calculateTargetSizeForQuality ::
  "real \<Rightarrow> real \<Rightarrow> real option \<Rightarrow> real option \<Rightarrow> real" where
  "calculateTargetSizeForQuality qualityScore durationSeconds inputWidth inputHeight =
     (let (outputWidth, outputHeight) =
            (case both_truthy inputWidth inputHeight of
               None \<Rightarrow> (js_or inputWidth 1920, js_or inputHeight 1080)
             | Some (w, h) \<Rightarrow>
                 if w > 1920 \<or> h > 1080 then
                   (let aspectRatio = w / h in
                    if w > 2560 \<or> h > 1440 then (Math_round (720 * aspectRatio), 720)
                    else (Math_round (1080 * aspectRatio), 1080))
                 else (w, h));
          pixels = outputWidth * outputHeight;
          fps = 30;
          bitratePerPixel = bitratePerPixelForScore qualityScore;
          videoBitrateKbps = (bitratePerPixel * pixels * fps) / 1000;
          audioBitrateKbps = 128;
          totalBitrateKbps = (videoBitrateKbps + audioBitrateKbps) / 0.95;
          targetSizeMB = (totalBitrateKbps * durationSeconds) / 8192
      in max 0.1 (Math_ceil (targetSizeMB * 10) / 10))"

definition getRecommendedTargetSize :: "real \<Rightarrow> real" where
  "getRecommendedTargetSize durationSeconds =
     calculateTargetSizeForQuality 75 durationSeconds None None"

record SizeValidation =
  valid :: bool
  minSizeMB :: "real option"
  recommendedSizeMB :: "real option"

definition validateTargetSize :: "real \<Rightarrow> real \<Rightarrow> calc_error + SizeValidation" where
  "validateTargetSize durationSeconds targetSizeMB =
     (let minSize = calculateMinimumSize durationSeconds;
          recommendedSize = getRecommendedTargetSize durationSeconds
      in case calculateBitrate targetSizeMB durationSeconds 128 of
           Inl e \<Rightarrow> Inl e
         | Inr calculatedBitrate \<Rightarrow>
             Inr \<lparr>valid = (calculatedBitrate \<ge> 100),
                  minSizeMB = Some minSize,
                  recommendedSizeMB = Some recommendedSize\<rparr>)"

datatype QualityLevel = excellent | good | fair | poor | very_poor

record QualityEstimate =
  score :: real
  level :: QualityLevel
  bitratePerPixel :: real
  estimatedQualityLoss :: real

text \<open>The audio bitrate chosen from the two flags, as \<open>estimateQuality\<close> and \<open>transcode\<close> do.\<close>

definition audioBitrateKbpsFor :: "bool \<Rightarrow> bool \<Rightarrow> real" where
  "audioBitrateKbpsFor removeAudio optimizeAudio =
     (if removeAudio then 0 else if optimizeAudio then 96 else 128)"

text \<open>
  The five bands of \<open>estimateQuality\<close>: score, level and estimated quality loss from
  the bitrate per pixel, before clamping and rounding.
\<close>

definition qualityBands :: "real \<Rightarrow> real \<times> QualityLevel \<times> real" where
  "qualityBands bpp =
     (if bpp \<ge> 0.15 then
        (90 + min 10 ((bpp - 0.15) * 100), excellent, max 0 (5 - (bpp - 0.15) * 20))
      else if bpp \<ge> 0.10 then
        (70 + ((bpp - 0.10) / 0.05) * 20, good, 10 + ((0.15 - bpp) / 0.05) * 10)
      else if bpp \<ge> 0.06 then
        (50 + ((bpp - 0.06) / 0.04) * 20, fair, 25 + ((0.10 - bpp) / 0.04) * 15)
      else if bpp \<ge> 0.03 then
        (30 + ((bpp - 0.03) / 0.03) * 20, poor, 45 + ((0.06 - bpp) / 0.03) * 20)
      else
        (max 0 (bpp / 0.03 * 30), very_poor, 70 + ((0.03 - bpp) / 0.03) * 25))"

definition estimateQuality ::
  "real \<Rightarrow> real \<Rightarrow> real option \<Rightarrow> real option \<Rightarrow> bool \<Rightarrow> bool \<Rightarrow> OutputResolution
     \<Rightarrow> calc_error + QualityEstimate" where
  "estimateQuality targetSizeMB durationSeconds inputWidth inputHeight
       removeAudio optimizeAudio outputResolution =
     (let audioBitrateKbps = audioBitrateKbpsFor removeAudio optimizeAudio in
      case calculateBitrate targetSizeMB durationSeconds audioBitrateKbps of
        Inl e \<Rightarrow> Inl e
      | Inr videoBitrate \<Rightarrow>
          let (outputWidth, outputHeight) =
                (case both_truthy inputWidth inputHeight of
                   Some (w, h) \<Rightarrow>
                     (case getTargetDimensions outputResolution w h of
                        Some dimensions \<Rightarrow> (width dimensions, height dimensions)
                      | None \<Rightarrow> (w, h))
                 | None \<Rightarrow> (1920, 1080));
              pixels = outputWidth * outputHeight;
              fps = 30;
              bpp = (videoBitrate * 1000) / (pixels * fps);
              (score0, level0, loss0) = qualityBands bpp
          in Inr \<lparr>score = max 0 (min 100 (Math_round score0)),
                  level = level0,
                  bitratePerPixel = bpp,
                  estimatedQualityLoss = max 0 (min 100 (Math_round loss0))\<rparr>)"

section \<open>Strings\<close>

text \<open>
  Strings are byte lists; the few characters of the source's messages that are not ASCII
  are written as their UTF-8 bytes. \<open>toLowerCase\<close> lowers the ASCII letters, which is
  all that the searched keywords need.
\<close>

definition toLowerCase :: "string \<Rightarrow> string" where
  "toLowerCase s =
     map (\<lambda>c. let n = (of_char c :: nat) in if 65 \<le> n \<and> n \<le> 90 then char_of (n + 32) else c) s"

fun startsWith :: "string \<Rightarrow> string \<Rightarrow> bool" where
  "startsWith s [] = True"
| "startsWith [] (c # cs) = False"
| "startsWith (x # xs) (c # cs) = (x = c \<and> startsWith xs cs)"

text \<open>\<open>s.includes(needle)\<close>.\<close>

fun includes_str :: "string \<Rightarrow> string \<Rightarrow> bool" where
  "includes_str [] needle = (needle = [])"
| "includes_str (x # xs) needle = (startsWith (x # xs) needle \<or> includes_str xs needle)"

text \<open>An integer in a template literal, in decimal; the numbers printed here are integers.\<close>

function showNat :: "nat \<Rightarrow> string" where
  "showNat n = (if n < 10 then [char_of (48 + n)] else showNat (n div 10) @ [char_of (48 + n mod 10)])"
  by pat_completeness auto
termination
  by (relation "measure (\<lambda>n. n)") auto

declare showNat.simps [simp del]

definition showNumber :: "real \<Rightarrow> string" where
  "showNumber x = (if x < 0 then ''-'' @ showNat (nat \<lfloor>- x\<rfloor>) else showNat (nat \<lfloor>x\<rfloor>))"

definition nl :: string where
  "nl = [CHR 0x0A]"

definition bullet :: string where
  "bullet = [CHR 0xE2, CHR 0x80, CHR 0xA2]"

definition bulb :: string where
  "bulb = [CHR 0xF0, CHR 0x9F, CHR 0x92, CHR 0xA1]"

text \<open>
  A value that is thrown or that rejects a promise: an \<open>Error\<close> object with its
  message, or a plain string. \<open>String(e)\<close> of an \<open>Error\<close> is its name, a colon and
  the message, and the name alone when the message is empty.
\<close>

datatype js_error = ErrorObj string | StringValue string

definition String_of :: "js_error \<Rightarrow> string" where
  "String_of e =
     (case e of
        ErrorObj m \<Rightarrow> if m = [] then ''Error'' else ''Error: '' @ m
      | StringValue v \<Rightarrow> v)"

section \<open>The FFmpeg transcode (\<open>useTranscoder.ts\<close>)\<close>

text \<open>
  The errors that \<open>transcode\<close> hands to \<open>setError\<close>, one constructor per message;
  \<open>FFmpegNotLoaded\<close> stands for the two messages about an FFmpeg that is missing or
  not loaded yet.
\<close>

datatype transcode_error =
    FFmpegNotLoaded
  | InvalidParameter calc_error
  | TargetTooSmall real real real real real
  | WasmSignatureMismatch
  | OutOfMemoryExec
  | EncodingFailed string "string list"
  | OutputUnreadableAfterCompletion real
  | OutputReadFailed string
  | OutputEmpty
  | OutputTruncated real
  | OutputTooSmall real

text \<open>
  The check of the target bitrate that precedes all work of the engine. The error carries
  the numbers its message prints: target size, duration, bitrate, minimum and recommended
  size.
\<close>

definition bitrateCheck :: "real \<Rightarrow> real \<Rightarrow> bool \<Rightarrow> bool \<Rightarrow> transcode_error + real" where
  "bitrateCheck targetSizeMB duration removeAudio optimizeAudio =
     (let audioBitrateKbps = audioBitrateKbpsFor removeAudio optimizeAudio in
      case calculateBitrate targetSizeMB duration audioBitrateKbps of
        Inl e \<Rightarrow> Inl (InvalidParameter e)
      | Inr targetBitrate \<Rightarrow>
          if targetBitrate < 100 then
            (case validateTargetSize duration targetSizeMB of
               Inl e \<Rightarrow> Inl (InvalidParameter e)
             | Inr validation \<Rightarrow>
                 let minSize = (case minSizeMB validation of
                                  Some m \<Rightarrow> m | None \<Rightarrow> calculateMinimumSize duration);
                     recommendedSize = (case recommendedSizeMB validation of
                                  Some r \<Rightarrow> r | None \<Rightarrow> getRecommendedTargetSize duration)
                 in Inl (TargetTooSmall targetSizeMB duration targetBitrate minSize recommendedSize))
          else Inr targetBitrate)"

text \<open>The argument list given to \<open>ffmpeg.exec\<close>.\<close>

definition ffmpegArgs ::
  "string \<Rightarrow> real \<Rightarrow> bool \<Rightarrow> bool \<Rightarrow> OutputResolution \<Rightarrow> real option \<Rightarrow> real option
     \<Rightarrow> string list" where
  "ffmpegArgs inputFileName targetBitrate removeAudio optimizeAudio outputResolution
       inputWidth inputHeight =
     (let dimensions = (case both_truthy inputWidth inputHeight of
                          Some (w, h) \<Rightarrow> getTargetDimensions outputResolution w h
                        | None \<Rightarrow> None);
          scaleFilter = (case dimensions of
                           Some d \<Rightarrow> ''scale='' @ showNumber (width d) @ '':'' @ showNumber (height d)
                                       @ '':force_original_aspect_ratio=decrease:flags=fast_bilinear''
                         | None \<Rightarrow> ''scale=iw:ih:flags=fast_bilinear'');
          videoBitrateTarget = Math_round (targetBitrate * 0.96);
          maxrate = Math_round (targetBitrate * 1.0);
          bufsize = Math_round (targetBitrate * 1.2)
      in [''-i'', inputFileName, ''-vf'', scaleFilter, ''-sws_flags'', ''lanczos'',
          ''-c:v'', ''libx264'',
          ''-b:v'', showNumber videoBitrateTarget @ ''k'',
          ''-maxrate'', showNumber maxrate @ ''k'',
          ''-bufsize'', showNumber bufsize @ ''k'',
          ''-minrate'', showNumber (Math_round (targetBitrate * 0.8)) @ ''k'',
          ''-preset'', ''veryfast'', ''-profile:v'', ''high'', ''-level'', ''4.0'',
          ''-threads'', ''2'', ''-tune'', ''film'',
          ''-x264-params'', ''keyint=60:min-keyint=30:scenecut=40'']
         @ (if removeAudio then [''-an'']
            else if optimizeAudio then [''-c:a'', ''aac'', ''-b:a'', ''96k'', ''-ac'', ''1'']
            else [''-c:a'', ''aac'', ''-b:a'', ''128k''])
         @ [''-movflags'', ''+faststart'', ''-y'', ''output.mp4''])"

text \<open>
  The variables that the log handler and the liveness poll of one \<open>transcode\<close> call
  share. \<open>uiProgress\<close> is the last value given to \<open>setProgress\<close>.
\<close>

record job_state =
  encodingErrors :: "string list"
  oomDetected :: bool
  abortedDetected :: bool
  frameCount :: real
  totalFramesEstimate :: real
  encodingCompleted :: bool
  lastProgressUpdate :: real
  lastProgressValue :: real
  encodingTimedOut :: bool
  uiProgress :: real

definition initialJobState :: "real \<Rightarrow> job_state" where
  "initialJobState now =
     \<lparr>encodingErrors = [], oomDetected = False, abortedDetected = False, frameCount = 0,
      totalFramesEstimate = 0, encodingCompleted = False, lastProgressUpdate = now,
      lastProgressValue = 0, encodingTimedOut = False, uiProgress = 0\<rparr>"

text \<open>
  A log line, with what the handler's two regular expressions find in it: the frame
  number after \<open>frame=\<close> and the four fields of \<open>time=hh:mm:ss.cc\<close>.
\<close>

record log_line =
  log_message :: string
  frameMatch :: "real option"
  timeMatch :: "(real \<times> real \<times> real \<times> real) option"

text \<open>
  \<open>errorHandler\<close>, the handler of the engine's log lines, at the time \<open>now\<close>. Console
  output and the throttle of the progress logging leave no trace in the state.
\<close>

definition errorHandler :: "real \<Rightarrow> real \<Rightarrow> log_line \<Rightarrow> job_state \<Rightarrow> job_state" where
  "errorHandler now duration line st =
     (let message = log_message line;
          lowerMsg = toLowerCase message;
          st1 = (if includes_str message ''video:'' \<and> includes_str message ''audio:'' \<and> includes_str message ''kB''
                 then st\<lparr>encodingCompleted := True, uiProgress := 1\<rparr> else st);
          st2 = (if includes_str lowerMsg ''aborted(oom)'' \<or> includes_str lowerMsg ''out of memory''
                 then st1\<lparr>oomDetected := True, encodingErrors := encodingErrors st1 @ [message]\<rparr>
                 else if includes_str lowerMsg ''aborted'' \<and> \<not> encodingCompleted st1
                 then st1\<lparr>abortedDetected := True, encodingErrors := encodingErrors st1 @ [message]\<rparr>
                 else if (includes_str lowerMsg ''error'' \<or> includes_str lowerMsg ''failed'')
                         \<and> \<not> includes_str lowerMsg ''non-critical''
                 then st1\<lparr>encodingErrors := encodingErrors st1 @ [message]\<rparr>
                 else st1);
          st3 = (case frameMatch line of
                   None \<Rightarrow> st2
                 | Some newFrameCount \<Rightarrow>
                     if newFrameCount > frameCount st2 then
                       (let a = st2\<lparr>frameCount := newFrameCount\<rparr>;
                            b = (if duration \<noteq> 0 \<and> totalFramesEstimate a = 0
                                 then a\<lparr>totalFramesEstimate := Math_floor (duration * 60)\<rparr> else a)
                        in if totalFramesEstimate b > 0 then
                             (let estimatedProgress = min 0.99 (frameCount b / totalFramesEstimate b)
                              in b\<lparr>uiProgress := estimatedProgress, lastProgressUpdate := now,
                                    lastProgressValue := estimatedProgress\<rparr>)
                           else b\<lparr>lastProgressUpdate := now\<rparr>)
                     else st2)
      in case timeMatch line of
           None \<Rightarrow> st3
         | Some (hours, minutes, seconds, centiseconds) \<Rightarrow>
             let currentTime = hours * 3600 + minutes * 60 + seconds + centiseconds / 100 in
             if duration \<noteq> 0 \<and> currentTime > 0 \<and> duration > 0 then
               (let timeProgress = min 0.99 (currentTime / duration)
                in st3\<lparr>uiProgress := timeProgress, lastProgressUpdate := now,
                       lastProgressValue := timeProgress\<rparr>)
             else st3)"

definition STALL_THRESHOLD :: real where
  "STALL_THRESHOLD = 3 * 60 * 1000"

text \<open>The message of the error with which the liveness poll rejects the exec promise.\<close>

definition stalledMessage :: "real \<Rightarrow> string" where
  "stalledMessage stalledMinutes =
     ''FFmpeg encoding stalled: No progress detected for '' @ showNumber stalledMinutes
       @ '' minutes.'' @ nl @ nl
     @ ''This usually indicates:'' @ nl
     @ ''   '' @ bullet @ '' Out of memory (OOM) - browser ran out of RAM'' @ nl
     @ ''   '' @ bullet @ '' Video too large/high resolution for browser processing'' @ nl
     @ ''   '' @ bullet @ '' Encoding process hung'' @ nl @ nl
     @ bulb @ '' Solutions:'' @ nl
     @ ''   1. Try a smaller video file or shorter clip'' @ nl
     @ ''   2. Use desktop tools: HandBrake (free) or FFmpeg CLI'' @ nl
     @ ''   3. Pre-downscale the video resolution before compressing'' @ nl
     @ ''   4. Close other browser tabs/apps to free up memory'' @ nl @ nl
     @ ''Browser-based encoding has memory limits (~2-4GB) that large/high-resolution videos can exceed.''"

text \<open>
  The callback of the 30 second interval, at the time \<open>now\<close>, once the exec promise
  exists: the new state and the error with which it rejects that promise, if it does.
  The branch that only logs a notice about a long compression changes nothing.
\<close>

definition stallCheck :: "real \<Rightarrow> job_state \<Rightarrow> job_state \<times> js_error option" where
  "stallCheck now st =
     (let timeSinceLastProgress = now - lastProgressUpdate st;
          progressStalled = (timeSinceLastProgress > STALL_THRESHOLD)
      in if progressStalled \<and> \<not> encodingCompleted st \<and> \<not> encodingTimedOut st then
           (let stalledMinutes = Math_round (timeSinceLastProgress / 60000)
            in (st\<lparr>encodingTimedOut := True\<rparr>, Some (ErrorObj (stalledMessage stalledMinutes))))
         else (st, None))"

text \<open>
  What happens while \<open>ffmpeg.exec\<close> runs, in order: a log line or a tick of the
  interval, each with its time.
\<close>

datatype job_event = Log real log_line | Tick real

text \<open>
  The events are handled one after the other until the poll rejects the promise; the
  result is the last state and that rejection, if any.
\<close>

fun runEvents :: "real \<Rightarrow> job_event list \<Rightarrow> job_state \<Rightarrow> job_state \<times> js_error option" where
  "runEvents duration [] st = (st, None)"
| "runEvents duration (Log now line # es) st = runEvents duration es (errorHandler now duration line st)"
| "runEvents duration (Tick now # es) st =
     (case stallCheck now st of
        (st', Some e) \<Rightarrow> (st', Some e)
      | (st', None) \<Rightarrow> runEvents duration es st')"

text \<open>
  After the exec promise has resolved. \<open>progress\<close> is the hook's state variable as the
  \<open>transcode\<close> closure reads it; \<open>detail\<close> is the rest of the message, which prints
  the file size and the duration.
\<close>

definition encodingLikelyCompleted :: "real \<Rightarrow> job_state \<Rightarrow> bool" where
  "encodingLikelyCompleted progress st =
     (encodingCompleted st \<or> progress \<ge> 0.95
      \<or> (frameCount st > 0 \<and> frameCount st \<ge> totalFramesEstimate st * 0.9))"

definition outOfMemoryMessage :: "string \<Rightarrow> string" where
  "outOfMemoryMessage detail =
     ''Out of Memory Error: Browser-based processing cannot handle this video.'' @ nl @ nl @ detail"

definition postExecCheck :: "real \<Rightarrow> string \<Rightarrow> job_state \<Rightarrow> js_error option" where
  "postExecCheck progress detail st =
     (if (oomDetected st \<or> abortedDetected st) \<and> \<not> encodingLikelyCompleted progress st
      then Some (ErrorObj (outOfMemoryMessage detail)) else None)"

text \<open>
  The \<open>catch (execError)\<close> block: it receives whatever the \<open>try\<close> block threw, the
  rejection of the exec promise and the error of \<open>postExecCheck\<close> alike.
\<close>

definition execCatch :: "js_error \<Rightarrow> string list \<Rightarrow> transcode_error" where
  "execCatch execError errors =
     (let errorStr = String_of execError;
          errorLower = toLowerCase errorStr
      in if includes_str errorLower ''signature mismatch'' \<or> includes_str errorLower ''indirect call''
         then WasmSignatureMismatch
         else if includes_str errorLower ''oom'' \<or> includes_str errorLower ''out of memory''
                 \<or> includes_str errorLower ''aborted''
         then OutOfMemoryExec
         else
           (let errorMsg = (case execError of
                              ErrorObj m \<Rightarrow> if m = [] then String_of execError else m
                            | StringValue v \<Rightarrow> v)
            in EncodingFailed errorMsg (take 3 errors)))"

text \<open>
  Reading the output back and checking its size; \<open>ReadOk n\<close> is an output of \<open>n\<close>
  bytes. A success is the size in MB.
\<close>

datatype read_result = ReadFailed js_error | ReadOk nat

definition validateOutput :: "real \<Rightarrow> read_result \<Rightarrow> transcode_error + real" where
  "validateOutput progress rd =
     (case rd of
        ReadFailed e \<Rightarrow>
          if progress \<ge> 0.95 then Inl (OutputUnreadableAfterCompletion progress)
          else Inl (OutputReadFailed (case e of ErrorObj m \<Rightarrow> m | StringValue v \<Rightarrow> v))
      | ReadOk outputLength \<Rightarrow>
          if outputLength = 0 then Inl OutputEmpty
          else
            let outputSizeMB = real outputLength / 1024 / 1024 in
            if outputSizeMB < 1 then
              (if progress \<ge> 0.95 then Inl (OutputTruncated outputSizeMB)
               else Inl (OutputTooSmall outputSizeMB))
            else Inr outputSizeMB)"

text \<open>
  The two state variables of the hook that \<open>transcode\<close> reads, \<open>isLoaded\<close> and
  \<open>progress\<close>. \<open>transcode\<close> is made by \<open>useCallback\<close> with the dependencies
  \<open>isLoaded\<close>, \<open>calculateBitrate\<close> and \<open>getVideoDuration\<close>, of which the last two
  change only with \<open>isLoaded\<close>: the function that a caller holds reads the values of
  the render in which \<open>isLoaded\<close> last changed. \<open>load\<close> calls \<open>setIsLoaded(true)\<close>
  and \<open>setProgress(0)\<close> together, and does nothing once FFmpeg is loaded; every other
  update of the state is a \<open>setProgress\<close>.
\<close>

record hook_state =
  hook_isLoaded :: bool
  hook_progress :: real

definition initial_hook :: hook_state where
  "initial_hook = \<lparr>hook_isLoaded = False, hook_progress = 0\<rparr>"

datatype hook_update = LoadFinished | SetProgress real

text \<open>
  One update applied to the pair of the current state and the state that the memoized
  \<open>transcode\<close> reads.
\<close>

definition hook_step :: "hook_state \<times> hook_state \<Rightarrow> hook_update \<Rightarrow> hook_state \<times> hook_state" where
  "hook_step sc u =
     (case u of
        LoadFinished \<Rightarrow>
          if hook_isLoaded (fst sc) then sc
          else (\<lparr>hook_isLoaded = True, hook_progress = 0\<rparr>, \<lparr>hook_isLoaded = True, hook_progress = 0\<rparr>)
      | SetProgress p \<Rightarrow> ((fst sc)\<lparr>hook_progress := p\<rparr>, snd sc))"

definition transcode_closure :: "hook_update list \<Rightarrow> hook_state" where
  "transcode_closure updates = snd (foldl hook_step (initial_hook, initial_hook) updates)"

text \<open>
  One call of \<open>transcode\<close>, given what it meets: the updates of the hook's state
  before the render from which the called function stems, the probed duration, the time
  at which the call starts to watch the progress, the events until the exec promise
  settles, the rejection of \<open>ffmpeg.exec\<close> itself if it rejects, and the result of
  reading the output.
\<close>

record ffmpeg_run =
  run_history :: "hook_update list"
  run_duration :: real
  run_start :: real
  run_events :: "job_event list"
  run_exec :: "js_error option"
  run_detail :: string
  run_output :: read_result

text \<open>The values of \<open>isLoaded\<close> and \<open>progress\<close> that the called function reads.\<close>

definition run_loaded :: "ffmpeg_run \<Rightarrow> bool" where
  "run_loaded env = hook_isLoaded (transcode_closure (run_history env))"

definition run_progress :: "ffmpeg_run \<Rightarrow> real" where
  "run_progress env = hook_progress (transcode_closure (run_history env))"

text \<open>The last value given to \<open>setProgress\<close> while \<open>ffmpeg.exec\<close> runs.\<close>

definition reportedProgress :: "ffmpeg_run \<Rightarrow> real" where
  "reportedProgress env =
     uiProgress (fst (runEvents (run_duration env) (run_events env)
                        (initialJobState (run_start env))))"

text \<open>
  \<open>transcode\<close> of the FFmpeg hook: what reaches \<open>setError\<close> (\<open>Inl\<close>) or the size of
  the output that is handed back (\<open>Inr\<close>), and the argument lists with which
  \<open>ffmpeg.exec\<close> was called. Every error thrown between the start of the exec and its
  end passes through \<open>execCatch\<close>.
\<close>

definition transcode ::
  "ffmpeg_run \<Rightarrow> string \<Rightarrow> real \<Rightarrow> bool \<Rightarrow> bool \<Rightarrow> OutputResolution \<Rightarrow> real option \<Rightarrow> real option
     \<Rightarrow> (transcode_error + real) \<times> string list list" where
  "transcode env inputFileName targetSizeMB removeAudio optimizeAudio outputResolution
       inputWidth inputHeight =
     (if \<not> run_loaded env then (Inl FFmpegNotLoaded, [])
      else case bitrateCheck targetSizeMB (run_duration env) removeAudio optimizeAudio of
        Inl e \<Rightarrow> (Inl e, [])
      | Inr targetBitrate \<Rightarrow>
          let args = ffmpegArgs inputFileName targetBitrate removeAudio optimizeAudio
                       outputResolution inputWidth inputHeight;
              (st, stalled) = runEvents (run_duration env) (run_events env)
                                (initialJobState (run_start env));
              thrown = (case stalled of
                          Some e \<Rightarrow> Some e
                        | None \<Rightarrow>
                            (case run_exec env of
                               Some e \<Rightarrow> Some e
                             | None \<Rightarrow> postExecCheck (run_progress env) (run_detail env) st))
          in case thrown of
               Some e \<Rightarrow> (Inl (execCatch e (encodingErrors st)), [args])
             | None \<Rightarrow> (validateOutput (run_progress env) (run_output env), [args]))"

section \<open>The WebCodecs transcode (\<open>useTranscoderPro.ts\<close>)\<close>

definition calculateVideoBitrate :: "real \<Rightarrow> real \<Rightarrow> real \<Rightarrow> real" where
  "calculateVideoBitrate targetSizeMB durationSeconds audioBitrateBps =
     (let BUFFER_MIN_MB = 0.244140625;
          BUFFER_MAX_MB = 2;
          bufferMB = min BUFFER_MAX_MB (max BUFFER_MIN_MB (targetSizeMB * 0.02));
          adjustedTargetSizeMB = max 0.1 (targetSizeMB - bufferMB);
          targetSizeBits = adjustedTargetSizeMB * 8192 * 1000;
          totalBitrateBps = targetSizeBits / durationSeconds;
          videoBitrateBps = (totalBitrateBps - audioBitrateBps) * 0.95;
          HARDWARE_ENCODER_OVERSHOOT_FACTOR = 0.55
      in Math_floor (max 100000 (videoBitrateBps * HARDWARE_ENCODER_OVERSHOOT_FACTOR)))"

definition joinWith :: "string \<Rightarrow> string list \<Rightarrow> string" where
  "joinWith sep parts = (case parts of [] \<Rightarrow> [] | p # ps \<Rightarrow> foldl (\<lambda>acc q. acc @ sep @ q) p ps)"

definition getFallbackReasonFromDiscardedTracks :: "string list \<Rightarrow> string" where
  "getFallbackReasonFromDiscardedTracks discardedTracks =
     (let reasons = set discardedTracks;
          parts =
            (if ''undecodable_source_codec'' \<in> reasons
             then [''Your video uses a codec that WebCodecs cannot decode (e.g. HEVC, certain VP9, or older formats)'']
             else [])
            @ (if ''no_encodable_target_codec'' \<in> reasons
               then [''Your audio or video cannot be encoded to the target format with WebCodecs'']
               else [])
            @ (if ''unknown_source_codec'' \<in> reasons
               then [''Your file uses an unknown or unsupported codec'']
               else [])
      in if parts = [] then ''WebCodecs cannot process this file.''
         else joinWith ''. '' parts @ ''. Using FFmpeg fallback for compatibility.'')"

record File =
  file_name :: string
  file_type :: string
  file_size :: nat

text \<open>
  What the MediaBunny engine answers: the probe of the input (duration, display size of
  the primary video track if there is one, presence of an audio track), the validity of
  the conversion with the reasons of its discarded tracks, and the byte length of the
  output buffer with the URL made for it. Each step may throw instead.
\<close>

record mb_probe =
  probe_duration :: real
  probe_videoTrack :: "(real \<times> real) option"
  probe_audioTrack :: bool

datatype mb_exec = ExecThrew js_error | ExecDone "nat option" string

datatype mb_init = InitThrew js_error | InitInvalid "string list" | InitValid mb_exec

datatype mb_engine = ProbeThrew js_error | Probed mb_probe mb_init

text \<open>The parameters given to \<open>Conversion.init\<close> that depend on the request.\<close>

datatype mb_audio = AudioDiscard | AudioEncode real nat

record mb_config =
  cfg_width :: real
  cfg_height :: real
  cfg_bitrate :: real
  cfg_audio :: mb_audio

record mb_result =
  mb_url :: "string option"
  mb_fallbackReason :: "string option"
  mb_error :: "string option"
  mb_submitted :: "mb_config option"

definition mb_caught :: "js_error \<Rightarrow> mb_config option \<Rightarrow> mb_result" where
  "mb_caught err cfg =
     \<lparr>mb_url = None,
      mb_fallbackReason = Some ''WebCodecs encountered an error. Using FFmpeg fallback for compatibility.'',
      mb_error = Some (case err of ErrorObj m \<Rightarrow> m | StringValue v \<Rightarrow> ''Transcoding failed''),
      mb_submitted = cfg\<rparr>"

definition emdash :: string where
  "emdash = [CHR 0xE2, CHR 0x80, CHR 0x94]"

definition transcodeWithMediaBunny ::
  "File \<Rightarrow> real \<Rightarrow> bool \<Rightarrow> bool \<Rightarrow> OutputResolution \<Rightarrow> real option \<Rightarrow> real option \<Rightarrow> mb_engine
     \<Rightarrow> mb_result" where
  "transcodeWithMediaBunny file targetSizeMB removeAudio optimizeAudio outputResolution
       inputWidth inputHeight engine =
     (case engine of
        ProbeThrew e \<Rightarrow> mb_caught e None
      | Probed probe init \<Rightarrow>
          (case probe_videoTrack probe of
             None \<Rightarrow> mb_caught (ErrorObj ''No video track found in file'') None
           | Some (trackWidth, trackHeight) \<Rightarrow>
               let srcWidth = (case inputWidth of Some w \<Rightarrow> w | None \<Rightarrow> trackWidth);
                   srcHeight = (case inputHeight of Some h \<Rightarrow> h | None \<Rightarrow> trackHeight);
                   dimensions = getTargetDimensions outputResolution srcWidth srcHeight;
                   outWidth = (case dimensions of Some d \<Rightarrow> width d | None \<Rightarrow> trackWidth);
                   outHeight = (case dimensions of Some d \<Rightarrow> height d | None \<Rightarrow> trackHeight);
                   audioBitrateBps = (if removeAudio then 0 else if optimizeAudio then 96000 else 128000);
                   videoBitrateBps = calculateVideoBitrate targetSizeMB (probe_duration probe)
                                       audioBitrateBps;
                   cfg = \<lparr>cfg_width = outWidth, cfg_height = outHeight, cfg_bitrate = videoBitrateBps,
                          cfg_audio = (if probe_audioTrack probe \<and> \<not> removeAudio
                                       then AudioEncode audioBitrateBps (if optimizeAudio then 1 else 2)
                                       else AudioDiscard)\<rparr>
               in case init of
                    InitThrew e \<Rightarrow> mb_caught e (Some cfg)
                  | InitInvalid discardedTracks \<Rightarrow>
                      \<lparr>mb_url = None,
                       mb_fallbackReason = Some (getFallbackReasonFromDiscardedTracks discardedTracks),
                       mb_error = None, mb_submitted = Some cfg\<rparr>
                  | InitValid ex \<Rightarrow>
                      (case ex of
                         ExecThrew e \<Rightarrow> mb_caught e (Some cfg)
                       | ExecDone buffer url \<Rightarrow>
                           (case buffer of
                              None \<Rightarrow> mb_caught (ErrorObj ''Output file is empty'') (Some cfg)
                            | Some byteLength \<Rightarrow>
                                if byteLength = 0
                                then mb_caught (ErrorObj ''Output file is empty'') (Some cfg)
                                else
                                  let outputSizeMB = real byteLength / 1024 / 1024;
                                      inputSizeMB = real (file_size file) / 1024 / 1024
                                  in if outputSizeMB \<ge> inputSizeMB * 0.98 then
                                       \<lparr>mb_url = None,
                                        mb_fallbackReason = Some (''WebCodecs output matched input size''
                                          @ emdash @ ''compression may not have applied. Using FFmpeg for reliable compression.''),
                                        mb_error = None, mb_submitted = Some cfg\<rparr>
                                     else
                                       \<lparr>mb_url = Some url, mb_fallbackReason = None,
                                        mb_error = None, mb_submitted = Some cfg\<rparr>))))"

datatype engine_kind = webcodecs | wasm | loading

record request =
  req_file :: File
  req_targetSizeMB :: real
  req_removeAudio :: bool
  req_optimizeAudio :: bool
  req_outputResolution :: OutputResolution
  req_inputWidth :: "real option"
  req_inputHeight :: "real option"

text \<open>
  \<open>getFileExtension\<close> of the FFmpeg \<open>transcode\<close>, which names the input file in the
  engine's file system: by the MIME type, else by the part of the name after its last dot.
\<close>

definition lastSegment :: "string \<Rightarrow> string" where
  "lastSegment s = rev (takeWhile (\<lambda>c. c \<noteq> CHR ''.'') (rev s))"

definition getFileExtension :: "File \<Rightarrow> string" where
  "getFileExtension file =
     (let mimeToExt = [(''video/mp4'', ''mp4''), (''video/quicktime'', ''mov''),
                       (''video/x-msvideo'', ''avi''), (''video/x-matroska'', ''mkv''),
                       (''video/webm'', ''webm'')]
      in case map_of mimeToExt (file_type file) of
           Some extFromMime \<Rightarrow> extFromMime
         | None \<Rightarrow>
             let filenameExt = toLowerCase (lastSegment (file_name file))
             in if filenameExt \<noteq> [] \<and> filenameExt \<in> set [''mp4'', ''mov'', ''avi'', ''mkv'', ''webm'']
                then filenameExt else ''mp4'')"

text \<open>The FFmpeg hook's \<open>transcode\<close> applied to a request.\<close>

definition wasm_transcode ::
  "ffmpeg_run \<Rightarrow> request \<Rightarrow> (transcode_error + real) \<times> string list list" where
  "wasm_transcode run r =
     transcode run (''input.'' @ getFileExtension (req_file r)) (req_targetSizeMB r)
       (req_removeAudio r) (req_optimizeAudio r) (req_outputResolution r)
       (req_inputWidth r) (req_inputHeight r)"

text \<open>
  What one call of the Pro hook's \<open>transcode\<close> meets: the values of \<open>engine\<close> and of
  the FFmpeg hook's \<open>error\<close> in the closure, the flag \<open>webCodecsAttempted\<close>, whether
  \<open>VideoEncoder\<close> exists, what the FFmpeg hook's \<open>load\<close> throws (if it throws), the
  run that the FFmpeg hook's \<open>transcode\<close> makes when called, and the answers of
  MediaBunny. The Pro hook's \<open>transcode\<close> is made by \<open>useCallback\<close> and holds the
  object \<open>wasmTranscoder\<close> of its render: the \<open>transcode\<close> it calls on that object
  is the one of that render, also after an \<open>await wasmTranscoder.load()\<close> in the same
  call, so \<open>run_history\<close> of that run ends with the render of the Pro hook's function.
\<close>

record pro_env =
  env_engine :: engine_kind
  env_webCodecsAttempted :: bool
  env_webCodecsAvailable :: bool
  env_wasmError :: "string option"
  env_wasmLoad :: "js_error option"
  env_wasmRun :: ffmpeg_run
  env_mediaBunny :: mb_engine

text \<open>What a call hands back: MediaBunny's blob with its URL, or FFmpeg's with its size in MB.\<close>

datatype blob = MediaBunnyBlob string | FFmpegBlob real

text \<open>
  The outcome of the call: the value of the promise (\<open>Inl\<close> when it rejects, \<open>None\<close>
  for \<open>null\<close>), the requests handed to the FFmpeg hook's \<open>transcode\<close>, the argument
  lists with which \<open>ffmpeg.exec\<close> was called, the error that the FFmpeg hook's
  \<open>transcode\<close> gave to \<open>setError\<close>, and the values given in order to
  \<open>setWebcodecsUnavailableReason\<close> and to \<open>setEngine\<close>.
\<close>

record pro_outcome =
  pro_result :: "js_error + blob option"
  pro_wasmCalls :: "request list"
  pro_execCalls :: "string list list"
  pro_wasmError :: "transcode_error option"
  pro_reasons :: "string option list"
  pro_engines :: "engine_kind list"

text \<open>A string or \<open>null\<close> used as a condition: \<open>null\<close> and the empty string are false.\<close>

definition error_set :: "string option \<Rightarrow> bool" where
  "error_set e = (case e of None \<Rightarrow> False | Some m \<Rightarrow> m \<noteq> [])"

definition pro_load :: "pro_env \<Rightarrow> js_error option \<times> string option list \<times> engine_kind list" where
  "pro_load env =
     (if env_webCodecsAttempted env then
        (if env_engine env = wasm then (env_wasmLoad env, [], []) else (None, [], []))
      else if env_webCodecsAvailable env then (None, [None], [webcodecs])
      else (env_wasmLoad env,
            [Some ''WebCodecs (VideoEncoder) is not supported in this browser. Use Chrome, Edge, or another Chromium-based browser for GPU acceleration.''],
            [wasm]))"

text \<open>The outcome of handing a request to the FFmpeg hook's \<open>transcode\<close>.\<close>

definition wasm_outcome ::
  "pro_env \<Rightarrow> request \<Rightarrow> string option list \<Rightarrow> engine_kind list \<Rightarrow> pro_outcome" where
  "wasm_outcome env forwarded reasons engines =
     (case wasm_transcode (env_wasmRun env) forwarded of
        (Inl e, execs) \<Rightarrow>
          \<lparr>pro_result = Inr None, pro_wasmCalls = [forwarded], pro_execCalls = execs,
           pro_wasmError = Some e, pro_reasons = reasons, pro_engines = engines\<rparr>
      | (Inr sizeMB, execs) \<Rightarrow>
          \<lparr>pro_result = Inr (Some (FFmpegBlob sizeMB)), pro_wasmCalls = [forwarded],
           pro_execCalls = execs, pro_wasmError = None, pro_reasons = reasons,
           pro_engines = engines\<rparr>)"

definition pro_transcode :: "pro_env \<Rightarrow> request \<Rightarrow> pro_outcome" where
  "pro_transcode env req =
     (let file = req_file req;
          targetSizeMB = req_targetSizeMB req;
          removeAudio = req_removeAudio req;
          optimizeAudio = req_optimizeAudio req;
          resolution = req_outputResolution req;
          w = req_inputWidth req;
          h = req_inputHeight req;
          forwarded = \<lparr>req_file = file, req_targetSizeMB = targetSizeMB, req_removeAudio = removeAudio,
                       req_optimizeAudio = optimizeAudio, req_outputResolution = resolution,
                       req_inputWidth = w, req_inputHeight = h\<rparr>
      in case pro_load env of
           (Some e, reasons, engines) \<Rightarrow>
             \<lparr>pro_result = Inl e, pro_wasmCalls = [], pro_execCalls = [], pro_wasmError = None,
              pro_reasons = reasons, pro_engines = engines\<rparr>
         | (None, reasons, engines) \<Rightarrow>
             if env_engine env = wasm then wasm_outcome env forwarded reasons engines
             else
               (let r = transcodeWithMediaBunny file targetSizeMB removeAudio optimizeAudio
                          resolution w h (env_mediaBunny env)
                in if mb_url r = None \<and> \<not> error_set (env_wasmError env) then
                     (let reason = (case mb_fallbackReason r of
                                      Some x \<Rightarrow> x
                                    | None \<Rightarrow> ''Your video uses codecs that WebCodecs cannot process. Using FFmpeg fallback for compatibility.'')
                      in case env_wasmLoad env of
                           Some e \<Rightarrow>
                             \<lparr>pro_result = Inl e, pro_wasmCalls = [], pro_execCalls = [],
                              pro_wasmError = None,
                              pro_reasons = reasons @ [None, Some reason], pro_engines = engines\<rparr>
                         | None \<Rightarrow>
                             wasm_outcome env forwarded (reasons @ [None, Some reason])
                               (engines @ [wasm]))
                   else
                     \<lparr>pro_result = Inr (map_option MediaBunnyBlob (mb_url r)), pro_wasmCalls = [],
                      pro_execCalls = [], pro_wasmError = None,
                      pro_reasons = reasons @ [None], pro_engines = engines\<rparr>))"

section \<open>Example runs\<close>

text \<open>
  The text of \<open>String(error)\<close> for the error of the liveness poll, before and after the
  number of minutes.
\<close>

definition stalledHead :: string where
  "stalledHead = ''Error: FFmpeg encoding stalled: No progress detected for ''"

definition stalledTail :: string where
  "stalledTail = '' minutes.'' @ nl @ nl
     @ ''This usually indicates:'' @ nl
     @ ''   '' @ bullet @ '' Out of memory (OOM) - browser ran out of RAM'' @ nl
     @ ''   '' @ bullet @ '' Video too large/high resolution for browser processing'' @ nl
     @ ''   '' @ bullet @ '' Encoding process hung'' @ nl @ nl
     @ bulb @ '' Solutions:'' @ nl
     @ ''   1. Try a smaller video file or shorter clip'' @ nl
     @ ''   2. Use desktop tools: HandBrake (free) or FFmpeg CLI'' @ nl
     @ ''   3. Pre-downscale the video resolution before compressing'' @ nl
     @ ''   4. Close other browser tabs/apps to free up memory'' @ nl @ nl
     @ ''Browser-based encoding has memory limits (~2-4GB) that large/high-resolution videos can exceed.''"

text \<open>
  A 90 second encode during which the engine logs nothing: the interval fires every 30
  seconds, and the exec promise would have resolved afterwards.
\<close>

definition stalled_run :: ffmpeg_run where
  "stalled_run =
     \<lparr>run_history = [LoadFinished], run_duration = 90, run_start = 0,
      run_events = [Tick 30000, Tick 60000, Tick 90000, Tick 120000, Tick 150000,
                    Tick 180000, Tick 210000],
      run_exec = None, run_detail = [], run_output = ReadOk 8000000\<rparr>"

text \<open>A run in which the exec promise resolves at once and the output has 8000000 bytes.\<close>

definition quiet_run :: ffmpeg_run where
  "quiet_run =
     \<lparr>run_history = [LoadFinished], run_duration = 90, run_start = 0,
      run_events = [], run_exec = None, run_detail = [], run_output = ReadOk 8000000\<rparr>"

text \<open>
  A run after FFmpeg has been loaded and an earlier encode has moved \<open>progress\<close>, in
  which the engine logs a line at 87.3 of 90 seconds, the exec promise resolves and the
  output has 500000 bytes.
\<close>

definition truncated_run :: ffmpeg_run where
  "truncated_run =
     \<lparr>run_history = [LoadFinished, SetProgress 0.5, SetProgress 1], run_duration = 90,
      run_start = 0,
      run_events =
        [Log 1000
           \<lparr>log_message = ''frame= 2619 fps= 30 q=28.0 size=    4096kB time=00:01:27.30 bitrate= 384.4kbits/s speed=1.0x'',
            frameMatch = Some 2619, timeMatch = Some (0, 1, 27, 30)\<rparr>],
      run_exec = None, run_detail = [], run_output = ReadOk 500000\<rparr>"

text \<open>The run of an FFmpeg hook that has not been loaded when the called function was made.\<close>

definition unloaded_run :: ffmpeg_run where
  "unloaded_run =
     \<lparr>run_history = [], run_duration = 90, run_start = 0,
      run_events = [], run_exec = None, run_detail = [], run_output = ReadOk 8000000\<rparr>"

definition example_file :: File where
  "example_file = \<lparr>file_name = ''clip.mp4'', file_type = ''video/mp4'', file_size = 5000000\<rparr>"

text \<open>A request for 8 MB.\<close>

definition example_request :: request where
  "example_request =
     \<lparr>req_file = example_file, req_targetSizeMB = 8, req_removeAudio = False,
      req_optimizeAudio = False, req_outputResolution = Original,
      req_inputWidth = None, req_inputHeight = None\<rparr>"


text \<open>
  A Pro hook on the WebCodecs engine whose MediaBunny cannot read the input. FFmpeg has
  not been loaded when the Pro hook's \<open>transcode\<close> was made, would load without
  error, and holds no error.
\<close>

definition fallback_env :: pro_env where
  "fallback_env =
     \<lparr>env_engine = webcodecs, env_webCodecsAttempted = True, env_webCodecsAvailable = True,
      env_wasmError = None, env_wasmLoad = None, env_wasmRun = unloaded_run,
      env_mediaBunny = ProbeThrew (ErrorObj ''Unsupported codec'')\<rparr>"

section \<open>Properties of the bitrate calculator\<close>

lemma Math_floor_mono: "x \<le> y \<Longrightarrow> Math_floor x \<le> Math_floor y"
  by (simp add: Math_floor_def floor_mono)

lemma adjusted_size_mono:
  fixes t1 t2 :: real
  assumes "t1 \<le> t2"
  shows "max 0.1 (t1 - min 2 (max 0.244140625 (t1 * 0.02)))
       \<le> max 0.1 (t2 - min 2 (max 0.244140625 (t2 * 0.02)))"
  using assms by (auto simp: max_def min_def)

lemma adjusted_size_pos:
  fixes t :: real
  shows "0 < max 0.1 (t - min 2 (max 0.244140625 (t * 0.02)))"
  by (auto simp: max_def min_def)

lemma calculateBitrate_ok:
  "0 < t \<Longrightarrow> 0 < d \<Longrightarrow>
   calculateBitrate t d a =
     Inr (Math_floor ((max 0.1 (t - min 2 (max 0.244140625 (t * 0.02))) * 8192 / d - a) * 0.95))"
  by (simp add: calculateBitrate_def Let_def)

lemma rate_mono_size:
  fixes A1 A2 d a :: real
  assumes "A1 \<le> A2" "0 < d"
  shows "Math_floor ((A1 * 8192 / d - a) * 0.95) \<le> Math_floor ((A2 * 8192 / d - a) * 0.95)"
proof -
  have "A1 * 8192 / d \<le> A2 * 8192 / d"
    using assms by (simp add: divide_right_mono)
  then show ?thesis by (intro Math_floor_mono) simp
qed

lemma rate_mono_duration:
  fixes A d1 d2 a :: real
  assumes "0 < A" "0 < d1" "d1 \<le> d2"
  shows "Math_floor ((A * 8192 / d2 - a) * 0.95) \<le> Math_floor ((A * 8192 / d1 - a) * 0.95)"
proof -
  have "A * 8192 / d2 \<le> A * 8192 / d1"
    using assms by (intro divide_left_mono) (auto simp: less_imp_le)
  then show ?thesis by (intro Math_floor_mono) simp
qed




text \<open>
  C5. With the duration and the audio bitrate fixed the result does not decrease when the
  target size grows, and with the target size and the audio bitrate fixed it does not
  increase when the duration grows; in each case the calculator returns a value.
\<close>

theorem calculateBitrate_monotone:
  assumes "0 < t1" "t1 \<le> t2" "0 < d1" "d1 \<le> d2" "0 \<le> a"
  shows "(\<exists>r1 r2. calculateBitrate t1 d1 a = Inr r1 \<and> calculateBitrate t2 d1 a = Inr r2 \<and> r1 \<le> r2)
       \<and> (\<exists>r1 r2. calculateBitrate t1 d1 a = Inr r1 \<and> calculateBitrate t1 d2 a = Inr r2 \<and> r2 \<le> r1)"
proof -
  have t2: "0 < t2" and d2: "0 < d2" using assms by linarith+
  note size = rate_mono_size [OF adjusted_size_mono [OF assms(2)] assms(3), of a]
  note dur = rate_mono_duration [OF adjusted_size_pos [of t1] assms(3,4), of a]
  show ?thesis
    unfolding calculateBitrate_ok [OF assms(1,3)] calculateBitrate_ok [OF t2 assms(3)]
      calculateBitrate_ok [OF assms(1) d2]
    using size dur by blast
qed

theorem calculateBitrate_monotone_witness:
  "(\<exists>r1 r2. calculateBitrate 8 90 128 = Inr r1 \<and> calculateBitrate 10 90 128 = Inr r2 \<and> r1 \<le> r2)
   \<and> (\<exists>r1 r2. calculateBitrate 8 90 128 = Inr r1 \<and> calculateBitrate 8 120 128 = Inr r2 \<and> r2 \<le> r1)"
  using calculateBitrate_monotone [of 8 10 90 120 128] by simp

section \<open>Properties of the feasibility validator\<close>

lemma calculateMinimumSize_90: "calculateMinimumSize 90 = 2.7"
  by (simp add: calculateMinimumSize_def Math_ceil_def Let_def)

lemma calculateBitrate_at_minimum_90: "calculateBitrate 2.7 90 128 = Inr 90"
  by (simp add: calculateBitrate_def Math_floor_def Let_def)

lemma getRecommendedTargetSize_90: "getRecommendedTargetSize 90 = 82.5"
  by (simp add: getRecommendedTargetSize_def calculateTargetSizeForQuality_def both_truthy_def
      js_or_def bitratePerPixelForScore_def Math_ceil_def Let_def)

text \<open>
  C2 at a duration of 90 seconds. The computed minimum size is 2.7 MB; the bitrate
  calculator, which also takes the safety buffer off the target, gives 90 kbps there,
  below the floor of 100, so the validator rejects the minimum it has computed itself.
\<close>

theorem validate_minimum_size_90:
  "calculateMinimumSize 90 = 2.7 \<and>
   calculateBitrate (calculateMinimumSize 90) 90 128 = Inr 90 \<and>
   validateTargetSize 90 (calculateMinimumSize 90) =
     Inr \<lparr>valid = False, minSizeMB = Some 2.7, recommendedSizeMB = Some 82.5\<rparr>"
  by (simp add: validateTargetSize_def calculateMinimumSize_90 calculateBitrate_at_minimum_90
      getRecommendedTargetSize_90)

section \<open>Properties of the resolution planner\<close>

lemma Math_round_Ints: "Math_round x \<in> \<int>"
  by (simp add: Math_round_def)

lemma Math_round_near: "\<bar>Math_round x - x\<bar> \<le> 1 / 2"
  unfolding Math_round_def by linarith

lemma Math_round_le_int:
  assumes "n \<in> \<int>" "x \<le> n"
  shows "Math_round x \<le> n"
proof -
  from assms(1) obtain k :: int where n: "n = of_int k" by (auto elim: Ints_cases)
  have "x + 1 / 2 < of_int (k + 1)" using assms(2) n by simp
  then have "\<lfloor>x + 1 / 2\<rfloor> < k + 1" by (simp only: floor_less_iff)
  then show ?thesis by (simp add: Math_round_def n)
qed

lemma Math_round_gt_int:
  assumes "n \<in> \<int>" "Math_round x > n"
  shows "x > n"
  using Math_round_le_int [OF assms(1), of x] assms(2) by linarith

lemma min_Ints: "(a::real) \<in> \<int> \<Longrightarrow> b \<in> \<int> \<Longrightarrow> min a b \<in> \<int>"
  by (simp add: min_def)

lemma div_ratio_le:
  fixes a b x :: real
  assumes "0 < a" "0 < b" "x \<le> a"
  shows "x / (a / b) \<le> b"
proof -
  have "x / (a / b) = x * b / a" by simp
  also have "\<dots> \<le> a * b / a"
    using assms by (intro divide_right_mono mult_right_mono) auto
  also have "\<dots> = b" using assms by simp
  finally show ?thesis .
qed

lemma mult_ratio_le:
  fixes a b y :: real
  assumes "0 < a" "0 < b" "y \<le> b"
  shows "y * (a / b) \<le> a"
proof -
  have "y * (a / b) = y * a / b" by simp
  also have "\<dots> \<le> b * a / b"
    using assms by (intro divide_right_mono mult_right_mono) auto
  also have "\<dots> = a" using assms by simp
  finally show ?thesis .
qed

lemma refit_width:
  fixes a b x y p :: real
  assumes "0 < a" "0 < b" "p < x / (a / b)" "y \<le> p"
  shows "y * (a / b) \<le> x"
proof -
  have r: "0 < a / b" using assms by simp
  have "p * (a / b) < x / (a / b) * (a / b)"
    using assms(3) r by (rule mult_strict_right_mono)
  also have "\<dots> = x" using assms by simp
  finally have "p * (a / b) < x" .
  moreover have "y * (a / b) \<le> p * (a / b)"
    using assms(4) r by (intro mult_right_mono) auto
  ultimately show ?thesis by linarith
qed

lemma refit_height:
  fixes a b x y p :: real
  assumes "0 < a" "0 < b" "p < y * (a / b)" "x \<le> p"
  shows "x / (a / b) \<le> y"
proof -
  have r: "0 < a / b" using assms by simp
  have "x / (a / b) \<le> p / (a / b)"
    using assms(4) r by (intro divide_right_mono) auto
  also have "\<dots> < y * (a / b) / (a / b)"
    using assms(3) r by (rule divide_strict_right_mono)
  also have "\<dots> = y" using assms by simp
  finally show ?thesis by simp
qed


lemma preset_box:
  assumes "RESOLUTION_PRESETS cap = Some box"
  shows "cap \<noteq> Original" "width box \<in> \<int>" "height box \<in> \<int>" "0 < width box" "0 < height box"
  using assms by (cases cap; auto simp: RESOLUTION_PRESETS_def)+

lemma getTargetDimensions_scaled:
  assumes preset: "RESOLUTION_PRESETS cap = Some box"
    and pos: "0 < w" "0 < h" and ints: "w \<in> \<int>" "h \<in> \<int>"
    and nofit: "\<not> (w \<le> width box \<and> h \<le> height box)"
  shows "\<exists>d. getTargetDimensions cap w h = Some d
           \<and> width d \<in> \<int> \<and> height d \<in> \<int>
           \<and> width d \<le> width box \<and> height d \<le> height box
           \<and> width d \<le> w \<and> height d \<le> h
           \<and> (\<bar>height d - width d / (w / h)\<bar> \<le> 1 / 2 \<or> \<bar>width d - height d * (w / h)\<bar> \<le> 1 / 2)"
proof -
  note b = preset_box [OF preset]
  define pw ph where "pw = width box" and "ph = height box"
  define W where "W = min pw w"
  define H where "H = min ph h"
  have W: "W \<in> \<int>" "W \<le> pw" "W \<le> w"
    using b ints by (simp_all add: W_def pw_def min_Ints)
  have H: "H \<in> \<int>" "H \<le> ph" "H \<le> h"
    using b ints by (simp_all add: H_def ph_def min_Ints)
  have pI: "pw \<in> \<int>" "ph \<in> \<int>" using b by (simp_all add: pw_def ph_def)
  show ?thesis
  proof (cases "w \<ge> h")
    case landscape: True
    show ?thesis
    proof (cases "Math_round (W / (w / h)) > ph")
      case overflow: True
      have eq: "getTargetDimensions cap w h = Some \<lparr>width = Math_round (H * (w / h)), height = H\<rparr>"
        using b(1) preset nofit landscape overflow
        by (simp add: getTargetDimensions_def Let_def W_def H_def pw_def ph_def)
      have "ph < W / (w / h)" using Math_round_gt_int [OF pI(2) overflow] .
      then have "H * (w / h) \<le> W" using pos H(2) by (intro refit_width) auto
      then have "Math_round (H * (w / h)) \<le> W" using W(1) by (intro Math_round_le_int)
      then show ?thesis
        using eq W H Math_round_Ints [of "H * (w / h)"] Math_round_near [of "H * (w / h)"]
        by (auto simp: pw_def ph_def)
    next
      case fits: False
      have eq: "getTargetDimensions cap w h = Some \<lparr>width = W, height = Math_round (W / (w / h))\<rparr>"
        using b(1) preset nofit landscape fits
        by (simp add: getTargetDimensions_def Let_def W_def H_def pw_def ph_def)
      have "W / (w / h) \<le> h" using pos W(3) by (intro div_ratio_le)
      then have "Math_round (W / (w / h)) \<le> h" using ints(2) by (intro Math_round_le_int)
      then show ?thesis
        using eq W fits Math_round_Ints [of "W / (w / h)"] Math_round_near [of "W / (w / h)"]
        by (auto simp: pw_def ph_def)
    qed
  next
    case portrait: False
    show ?thesis
    proof (cases "Math_round (H * (w / h)) > pw")
      case overflow: True
      have eq: "getTargetDimensions cap w h = Some \<lparr>width = W, height = Math_round (W / (w / h))\<rparr>"
        using b(1) preset nofit portrait overflow
        by (simp add: getTargetDimensions_def Let_def W_def H_def pw_def ph_def)
      have "pw < H * (w / h)" using Math_round_gt_int [OF pI(1) overflow] .
      then have "W / (w / h) \<le> H" using pos W(2) by (intro refit_height) auto
      then have "Math_round (W / (w / h)) \<le> H" using H(1) by (intro Math_round_le_int)
      then show ?thesis
        using eq W H Math_round_Ints [of "W / (w / h)"] Math_round_near [of "W / (w / h)"]
        by (auto simp: pw_def ph_def)
    next
      case fits: False
      have eq: "getTargetDimensions cap w h = Some \<lparr>width = Math_round (H * (w / h)), height = H\<rparr>"
        using b(1) preset nofit portrait fits
        by (simp add: getTargetDimensions_def Let_def W_def H_def pw_def ph_def)
      have "H * (w / h) \<le> w" using pos H(3) by (intro mult_ratio_le)
      then have "Math_round (H * (w / h)) \<le> w" using ints(1) by (intro Math_round_le_int)
      then show ?thesis
        using eq W H fits Math_round_Ints [of "H * (w / h)"] Math_round_near [of "H * (w / h)"]
        by (auto simp: pw_def ph_def)
    qed
  qed
qed

text \<open>
  C6. For positive integer input dimensions: \<open>getTargetDimensions\<close> returns
  \<open>undefined\<close> when the cap is \<open>original\<close> or the input fits the cap's box on both
  axes; otherwise it returns integer dimensions inside the box, not larger than the input,
  one of which is the other scaled by the input's aspect ratio and rounded (so within half
  a pixel). A 640 by 480 input under 1080p is left alone, and 3840 by 2160 under 720p
  becomes 1280 by 720.
\<close>

theorem getTargetDimensions_contract:
  assumes "0 < w" "0 < h" "w \<in> \<int>" "h \<in> \<int>"
  shows "(if cap = Original \<or> (\<exists>box. RESOLUTION_PRESETS cap = Some box \<and> w \<le> width box \<and> h \<le> height box)
          then getTargetDimensions cap w h = None
          else \<exists>box d. RESOLUTION_PRESETS cap = Some box \<and> getTargetDimensions cap w h = Some d
                 \<and> width d \<in> \<int> \<and> height d \<in> \<int>
                 \<and> width d \<le> width box \<and> height d \<le> height box
                 \<and> width d \<le> w \<and> height d \<le> h
                 \<and> (\<bar>height d - width d / (w / h)\<bar> \<le> 1 / 2 \<or> \<bar>width d - height d * (w / h)\<bar> \<le> 1 / 2))
       \<and> getTargetDimensions R1080p 640 480 = None
       \<and> getTargetDimensions R720p 3840 2160 = Some \<lparr>width = 1280, height = 720\<rparr>"
proof (intro conjI)
  show "getTargetDimensions R1080p 640 480 = None"
    by (simp add: getTargetDimensions_def RESOLUTION_PRESETS_def)
  show "getTargetDimensions R720p 3840 2160 = Some \<lparr>width = 1280, height = 720\<rparr>"
    by (simp add: getTargetDimensions_def RESOLUTION_PRESETS_def Math_round_def Let_def)
  show "if cap = Original \<or> (\<exists>box. RESOLUTION_PRESETS cap = Some box \<and> w \<le> width box \<and> h \<le> height box)
        then getTargetDimensions cap w h = None
        else \<exists>box d. RESOLUTION_PRESETS cap = Some box \<and> getTargetDimensions cap w h = Some d
               \<and> width d \<in> \<int> \<and> height d \<in> \<int>
               \<and> width d \<le> width box \<and> height d \<le> height box
               \<and> width d \<le> w \<and> height d \<le> h
               \<and> (\<bar>height d - width d / (w / h)\<bar> \<le> 1 / 2 \<or> \<bar>width d - height d * (w / h)\<bar> \<le> 1 / 2)"
  proof (cases "cap = Original \<or> (\<exists>box. RESOLUTION_PRESETS cap = Some box \<and> w \<le> width box \<and> h \<le> height box)")
    case True
    then have "getTargetDimensions cap w h = None"
      by (auto simp: getTargetDimensions_def)
    with True show ?thesis by simp
  next
    case False
    then obtain box where box: "RESOLUTION_PRESETS cap = Some box"
      by (cases cap) (auto simp: RESOLUTION_PRESETS_def)
    with False have "\<not> (w \<le> width box \<and> h \<le> height box)" by auto
    from getTargetDimensions_scaled [OF box assms this] box False
    show ?thesis by (simp only: if_False) blast
  qed
qed

theorem getTargetDimensions_contract_witness:
  "(0::real) < 3840 \<and> (0::real) < 2160 \<and> (3840::real) \<in> \<int> \<and> (2160::real) \<in> \<int> \<and>
   (\<exists>box d. RESOLUTION_PRESETS R720p = Some box \<and> getTargetDimensions R720p 3840 2160 = Some d
       \<and> width d \<in> \<int> \<and> height d \<in> \<int>
       \<and> width d \<le> width box \<and> height d \<le> height box
       \<and> width d \<le> 3840 \<and> height d \<le> 2160
       \<and> (\<bar>height d - width d / (3840 / 2160)\<bar> \<le> 1 / 2 \<or> \<bar>width d - height d * (3840 / 2160)\<bar> \<le> 1 / 2))"
proof -
  have h: "(0::real) < 3840 \<and> (0::real) < 2160 \<and> (3840::real) \<in> \<int> \<and> (2160::real) \<in> \<int>"
    by simp
  have n: "\<not> (R720p = Original \<or>
           (\<exists>box. RESOLUTION_PRESETS R720p = Some box \<and> 3840 \<le> width box \<and> 2160 \<le> height box))"
    by (simp add: RESOLUTION_PRESETS_def)
  have "if R720p = Original \<or>
           (\<exists>box. RESOLUTION_PRESETS R720p = Some box \<and> 3840 \<le> width box \<and> 2160 \<le> height box)
        then getTargetDimensions R720p 3840 2160 = None
        else \<exists>box d. RESOLUTION_PRESETS R720p = Some box \<and> getTargetDimensions R720p 3840 2160 = Some d
               \<and> width d \<in> \<int> \<and> height d \<in> \<int>
               \<and> width d \<le> width box \<and> height d \<le> height box
               \<and> width d \<le> 3840 \<and> height d \<le> 2160
               \<and> (\<bar>height d - width d / (3840 / 2160)\<bar> \<le> 1 / 2 \<or> \<bar>width d - height d * (3840 / 2160)\<bar> \<le> 1 / 2)"
    by (rule getTargetDimensions_contract [of 3840 2160 R720p, THEN conjunct1]) simp_all
  with n have "\<exists>box d. RESOLUTION_PRESETS R720p = Some box \<and> getTargetDimensions R720p 3840 2160 = Some d
               \<and> width d \<in> \<int> \<and> height d \<in> \<int>
               \<and> width d \<le> width box \<and> height d \<le> height box
               \<and> width d \<le> 3840 \<and> height d \<le> 2160
               \<and> (\<bar>height d - width d / (3840 / 2160)\<bar> \<le> 1 / 2 \<or> \<bar>width d - height d * (3840 / 2160)\<bar> \<le> 1 / 2)"
    by (simp only: if_False)
  with h show ?thesis by blast
qed

section \<open>Properties of the audio flags\<close>








section \<open>Properties of the bitrate floor\<close>















section \<open>Properties of the output validation\<close>

lemma runEvents_Nil_state: "runEvents d [] st = (st, None)"
  by simp

lemma postExecCheck_initial: "postExecCheck p detail (initialJobState s) = None"
  by (simp add: postExecCheck_def initialJobState_def)

lemma transcode_quiet_run:
  assumes "run_loaded env" "bitrateCheck t (run_duration env) ra oa = Inr b"
    "run_events env = []" "run_exec env = None"
  shows "transcode env f t ra oa res iw ih
         = (validateOutput (run_progress env) (run_output env),
            [ffmpegArgs f b ra oa res iw ih])"
  using assms by (simp add: transcode_def postExecCheck_initial)

lemma validateOutput_empty: "validateOutput progress (ReadOk 0) = Inl OutputEmpty"
  by (simp add: validateOutput_def)

lemma size_below_1MB: "(real n / 1024 / 1024 < 1) = (n < 1048576)"
  by (simp add: field_simps)

lemma validateOutput_small:
  assumes "0 < n" "n < 1048576"
  shows "validateOutput progress (ReadOk n)
         = (if 0.95 \<le> progress then Inl (OutputTruncated (real n / 1024 / 1024))
            else Inl (OutputTooSmall (real n / 1024 / 1024)))"
  using assms by (simp add: validateOutput_def Let_def size_below_1MB del: of_nat_less_iff)

lemma validateOutput_large:
  assumes "1048576 \<le> n"
  shows "validateOutput progress (ReadOk n) = Inr (real n / 1024 / 1024)"
  using assms by (simp add: validateOutput_def Let_def size_below_1MB)

lemma closure_progress_stays_zero:
  "hook_progress (snd sc) = 0 \<Longrightarrow> hook_progress (snd (foldl hook_step sc us)) = 0"
proof (induction us arbitrary: sc)
  case Nil
  then show ?case by simp
next
  case (Cons u us)
  have "hook_progress (snd (hook_step sc u)) = 0"
    using Cons.prems by (cases u) (simp_all add: hook_step_def)
  from Cons.IH [OF this] show ?case by simp
qed

lemma run_progress_zero: "run_progress env = 0"
  unfolding run_progress_def transcode_closure_def
  by (rule closure_progress_stays_zero) (simp add: initial_hook_def)

lemma truncated_run_fields:
  "run_loaded truncated_run" "run_duration truncated_run = 90" "run_start truncated_run = 0"
  "run_exec truncated_run = None" "run_output truncated_run = ReadOk 500000"
  by (simp_all add: truncated_run_def run_loaded_def transcode_closure_def hook_step_def
      initial_hook_def)

lemma progress_line_handled:
  "errorHandler 1000 90
     \<lparr>log_message = ''frame= 2619 fps= 30 q=28.0 size=    4096kB time=00:01:27.30 bitrate= 384.4kbits/s speed=1.0x'',
      frameMatch = Some 2619, timeMatch = Some (0, 1, 27, 30)\<rparr>
     (initialJobState 0)
   = \<lparr>encodingErrors = [], oomDetected = False, abortedDetected = False, frameCount = 2619,
      totalFramesEstimate = 5400, encodingCompleted = False, lastProgressUpdate = 1000,
      lastProgressValue = 0.97, encodingTimedOut = False, uiProgress = 0.97\<rparr>"
  by (simp add: errorHandler_def initialJobState_def toLowerCase_def char_of_eq_iff
      Math_floor_def Let_def)

lemma truncated_run_events:
  "runEvents 90 (run_events truncated_run) (initialJobState 0)
   = (\<lparr>encodingErrors = [], oomDetected = False, abortedDetected = False, frameCount = 2619,
       totalFramesEstimate = 5400, encodingCompleted = False, lastProgressUpdate = 1000,
       lastProgressValue = 0.97, encodingTimedOut = False, uiProgress = 0.97\<rparr>, None)"
  by (simp add: truncated_run_def progress_line_handled)

lemma bitrateCheck_8_90: "bitrateCheck 8 90 False False = Inr 549"
  by (simp add: bitrateCheck_def audioBitrateKbpsFor_def calculateBitrate_def Math_floor_def Let_def)

lemma truncated_run_outcome:
  "fst (transcode truncated_run ''input.mp4'' 8 False False Original None None)
     = Inl (OutputTooSmall (500000 / 1024 / 1024))"
proof -
  have v: "validateOutput 0 (ReadOk 500000) = Inl (OutputTooSmall (500000 / 1024 / 1024))"
    using validateOutput_small [of 500000 0] by simp
  have d: "run_detail truncated_run = []" by (simp add: truncated_run_def)
  show ?thesis
    by (simp add: transcode_def truncated_run_fields truncated_run_events bitrateCheck_8_90
        run_progress_zero d v postExecCheck_def Let_def)
qed

text \<open>
  C7 on an encode that reports 97% and leaves 500000 bytes. The \<open>progress\<close> that
  \<open>transcode\<close> compares with 0.95 is not the progress reported during the encode but
  the state of the render in which \<open>transcode\<close> was made, which is 0 after every
  sequence of updates. So the output is refused with the generic too-small error and the
  truncated-output error is never raised.
\<close>

theorem truncated_output_reported_as_too_small:
  "reportedProgress truncated_run = 0.97
   \<and> run_progress truncated_run = 0
   \<and> fst (transcode truncated_run ''input.mp4'' 8 False False Original None None)
       = Inl (OutputTooSmall (500000 / 1024 / 1024))
   \<and> run_progress env = 0
   \<and> validateOutput (run_progress env) (ReadOk 500000) = Inl (OutputTooSmall (500000 / 1024 / 1024))"
proof -
  have "reportedProgress truncated_run = 0.97"
    by (simp add: reportedProgress_def truncated_run_fields truncated_run_events)
  moreover have "validateOutput (run_progress env) (ReadOk 500000)
                   = Inl (OutputTooSmall (500000 / 1024 / 1024))"
    using validateOutput_small [of 500000 0] by (simp add: run_progress_zero)
  ultimately show ?thesis
    using truncated_run_outcome run_progress_zero by blast
qed

section \<open>Properties of the engine fallback\<close>

lemma request_forwarded:
  "\<lparr>req_file = req_file req, req_targetSizeMB = req_targetSizeMB req,
    req_removeAudio = req_removeAudio req, req_optimizeAudio = req_optimizeAudio req,
    req_outputResolution = req_outputResolution req, req_inputWidth = req_inputWidth req,
    req_inputHeight = req_inputHeight req\<rparr> = req"
  by simp

lemma pro_load_cases:
  obtains (threw) e rs es where "pro_load env = (Some e, rs, es)"
  | (quiet) rs es where "pro_load env = (None, rs, es)"
proof -
  obtain a rs es where p: "pro_load env = (a, rs, es)"
    by (cases "pro_load env") auto
  show thesis using p threw quiet by (cases a) auto
qed

lemma wasm_outcome_calls: "pro_wasmCalls (wasm_outcome env r rs es) = [r]"
  by (cases "wasm_transcode (env_wasmRun env) r"; rename_tac o' x; case_tac o')
    (simp_all add: wasm_outcome_def)

lemma pro_wasmCalls_at_most_one: "length (pro_wasmCalls (pro_transcode env req)) \<le> 1"
proof (cases env rule: pro_load_cases)
  case (threw e rs es)
  then show ?thesis by (simp add: pro_transcode_def Let_def)
next
  case (quiet rs es)
  then show ?thesis
    by (cases "env_wasmLoad env") (simp_all add: pro_transcode_def Let_def wasm_outcome_calls)
qed

lemma unloaded_transcode:
  "\<not> run_loaded run \<Longrightarrow> wasm_transcode run r = (Inl FFmpegNotLoaded, [])"
  by (simp add: wasm_transcode_def transcode_def)

lemma unloaded_outcome:
  "\<not> run_loaded (env_wasmRun env) \<Longrightarrow>
   wasm_outcome env r rs es
     = \<lparr>pro_result = Inr None, pro_wasmCalls = [r], pro_execCalls = [],
        pro_wasmError = Some FFmpegNotLoaded, pro_reasons = rs, pro_engines = es\<rparr>"
  by (simp add: wasm_outcome_def unloaded_transcode)

lemma mb_caught_fields [simp]:
  "mb_url (mb_caught e cfg) = None"
  "mb_fallbackReason (mb_caught e cfg)
     = Some ''WebCodecs encountered an error. Using FFmpeg fallback for compatibility.''"
  by (simp_all add: mb_caught_def)

lemma mb_reason_when_no_url:
  "mb_url (transcodeWithMediaBunny file t ra oa res iw ih eng) = None
   \<longleftrightarrow> mb_fallbackReason (transcodeWithMediaBunny file t ra oa res iw ih eng) \<noteq> None"
proof (cases eng)
  case (ProbeThrew e)
  then show ?thesis by (simp add: transcodeWithMediaBunny_def)
next
  case (Probed probe init)
  show ?thesis
  proof (cases "probe_videoTrack probe")
    case None
    with Probed show ?thesis by (simp add: transcodeWithMediaBunny_def)
  next
    case (Some track)
    obtain tw th where track: "track = (tw, th)" by (cases track)
    show ?thesis
    proof (cases init)
      case (InitThrew e)
      with Probed Some track show ?thesis by (simp add: transcodeWithMediaBunny_def Let_def)
    next
      case (InitInvalid ds)
      with Probed Some track show ?thesis by (simp add: transcodeWithMediaBunny_def Let_def)
    next
      case (InitValid ex)
      show ?thesis
      proof (cases ex)
        case (ExecThrew e)
        with Probed Some track InitValid show ?thesis
          by (simp add: transcodeWithMediaBunny_def Let_def)
      next
        case (ExecDone buffer url)
        show ?thesis
        proof (cases buffer)
          case None
          with Probed Some track InitValid ExecDone show ?thesis
            by (simp add: transcodeWithMediaBunny_def Let_def)
        next
          case (Some n)
          with Probed \<open>probe_videoTrack probe = Some track\<close> track InitValid ExecDone show ?thesis
            by (simp add: transcodeWithMediaBunny_def Let_def)
        qed
      qed
    qed
  qed
qed


lemma unloaded_run_not_loaded: "\<not> run_loaded unloaded_run"
  by (simp add: unloaded_run_def run_loaded_def transcode_closure_def initial_hook_def)

lemma fallback_env_no_url:
  "mb_url (transcodeWithMediaBunny (req_file example_request) (req_targetSizeMB example_request)
     (req_removeAudio example_request) (req_optimizeAudio example_request)
     (req_outputResolution example_request) (req_inputWidth example_request)
     (req_inputHeight example_request) (env_mediaBunny fallback_env)) = None"
  by (simp add: fallback_env_def transcodeWithMediaBunny_def)

lemma fallback_env_reason:
  "mb_fallbackReason (transcodeWithMediaBunny (req_file example_request)
     (req_targetSizeMB example_request) (req_removeAudio example_request)
     (req_optimizeAudio example_request) (req_outputResolution example_request)
     (req_inputWidth example_request) (req_inputHeight example_request)
     (env_mediaBunny fallback_env))
   = Some ''WebCodecs encountered an error. Using FFmpeg fallback for compatibility.''"
  by (simp add: fallback_env_def transcodeWithMediaBunny_def)

lemma fallback_env_outcome:
  "pro_transcode fallback_env example_request
     = \<lparr>pro_result = Inr None, pro_wasmCalls = [example_request], pro_execCalls = [],
        pro_wasmError = Some FFmpegNotLoaded,
        pro_reasons = [None, Some ''WebCodecs encountered an error. Using FFmpeg fallback for compatibility.''],
        pro_engines = [wasm]\<rparr>"
proof -
  have l: "pro_load fallback_env = (None, [], [])"
    by (simp add: pro_load_def fallback_env_def)
  have e: "env_engine fallback_env \<noteq> wasm" "\<not> error_set (env_wasmError fallback_env)"
    "env_wasmLoad fallback_env = None"
    by (simp_all add: fallback_env_def error_set_def)
  have u: "\<not> run_loaded (env_wasmRun fallback_env)"
    using unloaded_run_not_loaded by (simp add: fallback_env_def)
  show ?thesis
    by (simp add: pro_transcode_def Let_def l e fallback_env_no_url fallback_env_reason
        request_forwarded unloaded_outcome [OF u])
qed

lemma quiet_run_fields:
  "run_loaded quiet_run" "run_duration quiet_run = 90" "run_start quiet_run = 0"
  "run_events quiet_run = []" "run_exec quiet_run = None" "run_output quiet_run = ReadOk 8000000"
  by (simp_all add: quiet_run_def run_loaded_def transcode_closure_def hook_step_def
      initial_hook_def)

lemma example_input_name: "''input.'' @ getFileExtension (req_file example_request) = ''input.mp4''"
  by (simp add: example_request_def example_file_def getFileExtension_def)

lemma loaded_run_outcome:
  "wasm_transcode quiet_run example_request
     = (Inr (8000000 / 1024 / 1024), [ffmpegArgs ''input.mp4'' 549 False False Original None None])"
proof -
  have r: "req_targetSizeMB example_request = 8" "req_removeAudio example_request = False"
    "req_optimizeAudio example_request = False" "req_outputResolution example_request = Original"
    "req_inputWidth example_request = None" "req_inputHeight example_request = None"
    by (simp_all add: example_request_def)
  have b: "bitrateCheck 8 (run_duration quiet_run) False False = Inr 549"
    by (simp add: quiet_run_fields bitrateCheck_8_90)
  have v: "validateOutput (run_progress quiet_run) (run_output quiet_run)
             = Inr (8000000 / 1024 / 1024)"
    using validateOutput_large [of 8000000 "run_progress quiet_run"]
    by (simp add: quiet_run_fields)
  show ?thesis
    unfolding wasm_transcode_def example_input_name r
    using transcode_quiet_run [OF quiet_run_fields(1) b quiet_run_fields(4,5)]
    by (simp add: v)
qed

text \<open>
  C9 on a request that MediaBunny cannot process, with an FFmpeg hook that holds no error
  and whose FFmpeg loads. The Pro hook calls the FFmpeg hook's \<open>transcode\<close> once, with
  the request unchanged, and surfaces the reason; but the function it calls was made
  before FFmpeg was loaded and reads \<open>isLoaded\<close> as false, so it stops with the error
  that FFmpeg is not loaded, \<open>ffmpeg.exec\<close> is never called and the caller gets
  \<open>null\<close>. The same request, given to a function made after loading, is encoded.
\<close>

theorem fallback_refused_by_unloaded_closure:
  "mb_url (transcodeWithMediaBunny (req_file example_request) (req_targetSizeMB example_request)
     (req_removeAudio example_request) (req_optimizeAudio example_request)
     (req_outputResolution example_request) (req_inputWidth example_request)
     (req_inputHeight example_request) (env_mediaBunny fallback_env)) = None
   \<and> pro_transcode fallback_env example_request
       = \<lparr>pro_result = Inr None, pro_wasmCalls = [example_request], pro_execCalls = [],
          pro_wasmError = Some FFmpegNotLoaded,
          pro_reasons = [None, Some ''WebCodecs encountered an error. Using FFmpeg fallback for compatibility.''],
          pro_engines = [wasm]\<rparr>
   \<and> quiet_run = unloaded_run\<lparr>run_history := [LoadFinished]\<rparr>
   \<and> wasm_transcode quiet_run example_request
       = (Inr (8000000 / 1024 / 1024), [ffmpegArgs ''input.mp4'' 549 False False Original None None])"
proof -
  have "quiet_run = unloaded_run\<lparr>run_history := [LoadFinished]\<rparr>"
    by (simp add: quiet_run_def unloaded_run_def)
  with fallback_env_no_url fallback_env_outcome loaded_run_outcome show ?thesis by blast
qed

section \<open>Properties of the stall detection\<close>

lemma toLowerCase_append: "toLowerCase (a @ b) = toLowerCase a @ toLowerCase b"
  by (simp add: toLowerCase_def)

lemma startsWith_Nil_iff: "startsWith [] n = (n = [])"
  by (cases n) simp_all

lemma startsWith_append: "startsWith s n \<Longrightarrow> startsWith (s @ t) n"
  by (induction s n rule: startsWith.induct) simp_all

lemma includes_str_appendI1: "includes_str a n \<Longrightarrow> includes_str (a @ b) n"
proof (induction a)
  case Nil
  then show ?case by (cases b) simp_all
next
  case (Cons x a)
  then show ?case using startsWith_append [of "x # a" n b] by auto
qed

lemma includes_str_appendI2: "includes_str b n \<Longrightarrow> includes_str (a @ b) n"
  by (induction a) simp_all

lemma startsWith_through_gap:
  "set ds \<inter> set n = {} \<Longrightarrow> ds \<noteq> [] \<Longrightarrow> startsWith (p @ ds @ q) n \<Longrightarrow> startsWith p n"
proof (induction p n rule: startsWith.induct)
  case (1 s)
  then show ?case by simp
next
  case (2 c cs)
  then show ?case by (cases ds) auto
next
  case (3 x xs c cs)
  then show ?case by auto
qed

lemma includes_str_gap_only:
  assumes "set ds \<inter> set n = {}" "n \<noteq> []"
  shows "includes_str (ds @ q) n \<Longrightarrow> includes_str q n"
  using assms
proof (induction ds)
  case Nil
  then show ?case by simp
next
  case (Cons d ds)
  then have "\<not> startsWith (d # ds @ q) n" by (cases n) auto
  with Cons show ?case by auto
qed

lemma includes_str_across_gap:
  assumes "set ds \<inter> set n = {}" "ds \<noteq> []" "n \<noteq> []"
  shows "includes_str (p @ ds @ q) n \<Longrightarrow> includes_str p n \<or> includes_str q n"
proof (induction p)
  case Nil
  then show ?case using includes_str_gap_only [OF assms(1,3)] by simp
next
  case (Cons x p)
  from Cons.prems have "startsWith ((x # p) @ ds @ q) n \<or> includes_str (p @ ds @ q) n" by simp
  then show ?case
  proof
    assume "startsWith ((x # p) @ ds @ q) n"
    from startsWith_through_gap [OF assms(1,2) this] show ?thesis by simp
  next
    assume "includes_str (p @ ds @ q) n"
    with Cons.IH show ?thesis by auto
  qed
qed

lemma showNat_digits: "c \<in> set (showNat k) \<Longrightarrow> 48 \<le> (of_char c :: nat) \<and> (of_char c :: nat) \<le> 57"
proof (induction k rule: showNat.induct)
  case (1 n)
  show ?case
  proof (cases "n < 10")
    case True
    with 1(2) have "c = char_of (48 + n)" by (subst (asm) showNat.simps) simp
    with True show ?thesis by simp
  next
    case False
    with 1(2) have "c \<in> set (showNat (n div 10)) \<or> c = char_of (48 + n mod 10)"
      by (subst (asm) showNat.simps) auto
    then show ?thesis
    proof
      assume "c \<in> set (showNat (n div 10))"
      with 1(1) False show ?thesis by simp
    next
      assume "c = char_of (48 + n mod 10)"
      moreover have "n mod 10 < 10" by simp
      ultimately show ?thesis by simp
    qed
  qed
qed

lemma showNat_nonempty: "showNat k \<noteq> []"
  by (subst showNat.simps) simp


lemma showNumber_chars:
  assumes "c \<in> set (showNumber x)"
  shows "(of_char c :: nat) = 45 \<or> (48 \<le> (of_char c :: nat) \<and> (of_char c :: nat) \<le> 57)"
  using assms showNat_digits [of c] by (auto simp: showNumber_def split: if_splits)

lemma showNumber_nonempty: "showNumber x \<noteq> []"
  by (simp add: showNumber_def showNat_nonempty)

lemma toLowerCase_showNumber: "toLowerCase (showNumber x) = showNumber x"
proof -
  have "\<And>c. c \<in> set (showNumber x) \<Longrightarrow> \<not> (65 \<le> (of_char c :: nat) \<and> (of_char c :: nat) \<le> 90)"
    using showNumber_chars by fastforce
  then have "map (\<lambda>c. let n = (of_char c :: nat) in if 65 \<le> n \<and> n \<le> 90 then char_of (n + 32) else c)
           (showNumber x) = showNumber x"
    by (intro map_idI) (auto simp: Let_def)
  then show ?thesis by (simp only: toLowerCase_def)
qed

lemma showNumber_avoids:
  assumes "\<forall>c \<in> set n. (of_char c :: nat) = 32 \<or> 97 \<le> (of_char c :: nat)"
  shows "set (showNumber x) \<inter> set n = {}"
  using assms showNumber_chars [of _ x] by fastforce

lemma stalled_split: "String_of (ErrorObj (stalledMessage m)) = stalledHead @ showNumber m @ stalledTail"
  by (simp add: String_of_def stalledMessage_def stalledHead_def stalledTail_def)

lemma stalled_run_fields:
  "run_loaded stalled_run" "run_duration stalled_run = 90" "run_start stalled_run = 0"
  by (simp_all add: stalled_run_def run_loaded_def transcode_closure_def hook_step_def
      initial_hook_def)

lemma tail_oom: "includes_str (toLowerCase stalledTail) ''oom''"
  by (simp add: stalledTail_def toLowerCase_def nl_def bullet_def bulb_def char_of_eq_iff)

lemma tail_no_sig: "\<not> includes_str (toLowerCase stalledTail) ''signature mismatch''"
  by (simp add: stalledTail_def toLowerCase_def nl_def bullet_def bulb_def char_of_eq_iff)

lemma tail_no_ind: "\<not> includes_str (toLowerCase stalledTail) ''indirect call''"
  by (simp add: stalledTail_def toLowerCase_def nl_def bullet_def bulb_def char_of_eq_iff)

lemma head_no_sig: "\<not> includes_str (toLowerCase stalledHead) ''signature mismatch''"
  by (simp add: stalledHead_def toLowerCase_def char_of_eq_iff)

lemma head_no_ind: "\<not> includes_str (toLowerCase stalledHead) ''indirect call''"
  by (simp add: stalledHead_def toLowerCase_def char_of_eq_iff)

lemma needle_chars:
  "\<forall>c \<in> set ''signature mismatch''. (of_char c :: nat) = 32 \<or> 97 \<le> (of_char c :: nat)"
  "\<forall>c \<in> set ''indirect call''. (of_char c :: nat) = 32 \<or> 97 \<le> (of_char c :: nat)"
  by simp_all

lemma stalled_lower:
  "toLowerCase (String_of (ErrorObj (stalledMessage m)))
     = toLowerCase stalledHead @ showNumber m @ toLowerCase stalledTail"
  by (simp only: stalled_split toLowerCase_append toLowerCase_showNumber)

lemma stalled_no_signature:
  "\<not> includes_str (toLowerCase (String_of (ErrorObj (stalledMessage m)))) ''signature mismatch''"
proof
  assume "includes_str (toLowerCase (String_of (ErrorObj (stalledMessage m)))) ''signature mismatch''"
  then have "includes_str (toLowerCase stalledHead @ showNumber m @ toLowerCase stalledTail)
               ''signature mismatch''"
    by (simp only: stalled_lower)
  from includes_str_across_gap [OF showNumber_avoids [OF needle_chars(1)] showNumber_nonempty _ this]
  have "includes_str (toLowerCase stalledHead) ''signature mismatch''
        \<or> includes_str (toLowerCase stalledTail) ''signature mismatch''" by simp
  with head_no_sig tail_no_sig show False by blast
qed

lemma stalled_no_indirect:
  "\<not> includes_str (toLowerCase (String_of (ErrorObj (stalledMessage m)))) ''indirect call''"
proof
  assume "includes_str (toLowerCase (String_of (ErrorObj (stalledMessage m)))) ''indirect call''"
  then have "includes_str (toLowerCase stalledHead @ showNumber m @ toLowerCase stalledTail)
               ''indirect call''"
    by (simp only: stalled_lower)
  from includes_str_across_gap [OF showNumber_avoids [OF needle_chars(2)] showNumber_nonempty _ this]
  have "includes_str (toLowerCase stalledHead) ''indirect call''
        \<or> includes_str (toLowerCase stalledTail) ''indirect call''" by simp
  with head_no_ind tail_no_ind show False by blast
qed

lemma stalled_has_oom:
  "includes_str (toLowerCase (String_of (ErrorObj (stalledMessage m)))) ''oom''"
  unfolding stalled_lower
  by (intro includes_str_appendI2 tail_oom)

lemma execCatch_stalled: "execCatch (ErrorObj (stalledMessage m)) errs = OutOfMemoryExec"
  using stalled_no_signature [of m] stalled_no_indirect [of m] stalled_has_oom [of m]
  by (simp add: execCatch_def Let_def)

lemma stallCheck_quiet:
  assumes "now - lastProgressUpdate st \<le> 180000"
  shows "stallCheck now st = (st, None)"
  using assms by (simp add: stallCheck_def STALL_THRESHOLD_def Let_def)

lemma stallCheck_fires:
  assumes "now - lastProgressUpdate st > 180000" "\<not> encodingCompleted st" "\<not> encodingTimedOut st"
  shows "stallCheck now st
         = (st\<lparr>encodingTimedOut := True\<rparr>,
            Some (ErrorObj (stalledMessage (Math_round ((now - lastProgressUpdate st) / 60000)))))"
  using assms by (simp add: stallCheck_def STALL_THRESHOLD_def Let_def)

lemma stallCheck_210: 
  "stallCheck 210000 (initialJobState 0)
     = ((initialJobState 0)\<lparr>encodingTimedOut := True\<rparr>, Some (ErrorObj (stalledMessage 4)))"
proof -
  have "Math_round ((210000 - 0) / 60000) = 4" by (simp add: Math_round_def)
  then show ?thesis
    using stallCheck_fires [of 210000 "initialJobState 0"]
    by (simp add: initialJobState_def)
qed

lemma stalled_run_events:
  "runEvents 90 (run_events stalled_run) (initialJobState 0)
     = ((initialJobState 0)\<lparr>encodingTimedOut := True\<rparr>, Some (ErrorObj (stalledMessage 4)))"
proof -
  have q: "\<And>now. now \<le> 180000 \<Longrightarrow> stallCheck now (initialJobState 0) = (initialJobState 0, None)"
    by (rule stallCheck_quiet) (simp add: initialJobState_def)
  show ?thesis
    by (simp add: stalled_run_def q stallCheck_210)
qed

text \<open>
  C8 on a stalled encode. After 210 seconds without a log line the liveness poll rejects
  the exec promise with the stalled-encoding error; the \<open>catch\<close> block then searches
  the text of that error for \<open>oom\<close>, finds it in the error's own list of likely causes,
  and throws the out-of-memory error in its place. So the caller of \<open>transcode\<close> is told
  of an out-of-memory failure, for every number of minutes in the message.
\<close>

theorem stall_surfaces_as_out_of_memory:
  "stallCheck 210000 (initialJobState 0)
     = ((initialJobState 0)\<lparr>encodingTimedOut := True\<rparr>, Some (ErrorObj (stalledMessage 4)))
   \<and> execCatch (ErrorObj (stalledMessage m)) errs = OutOfMemoryExec
   \<and> fst (transcode stalled_run ''input.mp4'' 8 False False Original None None)
       = Inl OutOfMemoryExec"
proof -
  have "fst (transcode stalled_run ''input.mp4'' 8 False False Original None None)
          = Inl OutOfMemoryExec"
    by (simp add: transcode_def stalled_run_fields stalled_run_events bitrateCheck_8_90
        execCatch_stalled)
  with stallCheck_210 execCatch_stalled show ?thesis by blast
qed

section \<open>Properties of the quality round trip\<close>

lemma sizeForQuality_unscaled:
  assumes "0 < w" "w \<le> 1920" "0 < h" "h \<le> 1080"
  shows "calculateTargetSizeForQuality s d (Some w) (Some h)
         = max 0.1 (Math_ceil ((bitratePerPixelForScore s * (w * h) * 30 / 1000 + 128) / 0.95
                                 * d / 8192 * 10) / 10)"
proof -
  have t: "both_truthy (Some w) (Some h) = Some (w, h)"
    using assms by (simp add: both_truthy_def)
  have n: "\<not> (w > 1920 \<or> h > 1080)" using assms by simp
  show ?thesis
    by (simp only: calculateTargetSizeForQuality_def t n option.case prod.case if_False Let_def)
qed

lemma Math_ceil_bounds: "x \<le> Math_ceil x" "Math_ceil x < x + 1"
  unfolding Math_ceil_def by linarith+

lemma rounded_up_size:
  fixes x :: real
  assumes "12.3 \<le> max 0.1 (Math_ceil (x * 10) / 10)"
  shows "x \<le> max 0.1 (Math_ceil (x * 10) / 10)" "max 0.1 (Math_ceil (x * 10) / 10) < x + 0.1"
proof -
  have m: "max 0.1 (Math_ceil (x * 10) / 10) = Math_ceil (x * 10) / 10"
    using assms by (simp add: max_def split: if_splits)
  show "x \<le> max 0.1 (Math_ceil (x * 10) / 10)"
    unfolding m using Math_ceil_bounds(1) [of "x * 10"] by simp
  show "max 0.1 (Math_ceil (x * 10) / 10) < x + 0.1"
    unfolding m using Math_ceil_bounds(2) [of "x * 10"] by simp
qed

lemma Math_floor_bounds: "Math_floor x \<le> x" "x - 1 < Math_floor x"
  unfolding Math_floor_def by linarith+

lemma adjusted_large:
  fixes S :: real
  assumes "12.3 \<le> S"
  shows "0.98 * S \<le> max 0.1 (S - min 2 (max 0.244140625 (S * 0.02)))"
    and "max 0.1 (S - min 2 (max 0.244140625 (S * 0.02))) \<le> S"
  using assms by (auto simp: max_def min_def)


lemma round_trip_rate_bounds:
  fixes V d S T A r :: real
  assumes d: "0 < d"
    and T: "T = (V + 128) / 0.95"
    and S1: "T * d / 8192 \<le> S" and S2: "S < T * d / 8192 + 0.1" and S3: "12.3 \<le> S"
    and A1: "0.98 * S \<le> A" and A2: "A \<le> S"
    and r1: "r \<le> (A * 8192 / d - 128) * 0.95" and r2: "(A * 8192 / d - 128) * 0.95 - 1 < r"
  shows "0.98 * V \<le> r" and "r < V * (123 / 122) + 7.45"
proof -
  define X where "X = A * 8192 / d"
  define Y where "Y = S * 8192 / d"
  define Z where "Z = 819.2 / d"
  have TV: "0.95 * T = V + 128" using T by simp
  have a: "T \<le> Y"
    using S1 d by (simp add: Y_def field_simps)
  have b: "Y < T + Z"
    using S2 d by (simp add: Y_def Z_def field_simps)
  have "99942.4 < T * d" using S2 S3 by simp
  then have c: "Z < T / 122"
    using d by (simp add: Z_def field_simps)
  have "0.98 * S * 8192 / d \<le> A * 8192 / d"
    using A1 d by (intro divide_right_mono mult_right_mono) simp_all
  then have e: "0.98 * Y \<le> X" by (simp add: X_def Y_def)
  have "A * 8192 / d \<le> S * 8192 / d"
    using A2 d by (intro divide_right_mono mult_right_mono) simp_all
  then have f: "X \<le> Y" by (simp add: X_def Y_def)
  have r1': "r \<le> (X - 128) * 0.95" and r2': "(X - 128) * 0.95 - 1 < r"
    using r1 r2 by (simp_all add: X_def)
  show "0.98 * V \<le> r" using TV a e r2' by (simp add: field_simps)
  show "r < V * (123 / 122) + 7.45" using TV b c f r1' by (simp add: field_simps)
qed

lemma clamp_round_bounds:
  assumes "a - 1 / 2 \<le> x" "x < b + 1 / 2" "a \<in> \<int>" "b \<in> \<int>" "0 \<le> a" "b \<le> 100"
  shows "a \<le> max 0 (min 100 (Math_round x)) \<and> max 0 (min 100 (Math_round x)) \<le> b"
proof -
  from assms(3,4) obtain n m :: int where a: "a = of_int n" and b: "b = of_int m"
    by (auto elim!: Ints_cases)
  have "n \<le> \<lfloor>x + 1 / 2\<rfloor>" using assms(1) by (simp add: le_floor_iff a)
  moreover have "\<lfloor>x + 1 / 2\<rfloor> \<le> m" using assms(2) by (simp add: floor_le_iff b)
  ultimately have "a \<le> Math_round x" "Math_round x \<le> b"
    by (simp_all add: Math_round_def a b)
  with assms(5,6) show ?thesis by (simp add: max_def min_def)
qed

lemma bands_near_30:
  assumes "0.98 * 0.03 \<le> bpp" "bpp < 0.03 * (123 / 122) + 0.00324"
  shows "29 - 1 / 2 \<le> fst (qualityBands bpp)" "fst (qualityBands bpp) < 32 + 1 / 2"
  using assms by (auto simp: qualityBands_def max_def)

lemma bands_near_50:
  assumes "0.98 * 0.06 \<le> bpp" "bpp < 0.06 * (123 / 122) + 0.00324"
  shows "49 - 1 / 2 \<le> fst (qualityBands bpp)" "fst (qualityBands bpp) < 52 + 1 / 2"
  using assms by (auto simp: qualityBands_def)

lemma bands_near_70:
  assumes "0.98 * 0.10 \<le> bpp" "bpp < 0.10 * (123 / 122) + 0.00324"
  shows "69 - 1 / 2 \<le> fst (qualityBands bpp)" "fst (qualityBands bpp) < 72 + 1 / 2"
  using assms by (auto simp: qualityBands_def)

lemma bands_near_90:
  assumes "0.98 * 0.15 \<le> bpp" "bpp < 0.15 * (123 / 122) + 0.00324"
  shows "89 - 1 / 2 \<le> fst (qualityBands bpp)" "fst (qualityBands bpp) < 92 + 1 / 2"
  using assms by (auto simp: qualityBands_def min_def)

lemma bpp_bounds:
  fixes P b0 r :: real
  assumes "76800 \<le> P" "0.98 * (b0 * P * 30 / 1000) \<le> r"
    "r < (b0 * P * 30 / 1000) * (123 / 122) + 7.45"
  shows "0.98 * b0 \<le> r * 1000 / (P * 30)" "r * 1000 / (P * 30) < b0 * (123 / 122) + 0.00324"
proof -
  define Q where "Q = b0 * P"
  have P: "0 < P" using assms(1) by simp
  have 1: "0.98 * (Q * 30 / 1000) \<le> r" and 2: "r < (Q * 30 / 1000) * (123 / 122) + 7.45"
    using assms(2,3) by (simp_all add: Q_def)
  have "0.98 * Q * 30 \<le> r * 1000" using 1 by simp
  then have "0.98 * b0 * (P * 30) \<le> r * 1000" by (simp add: Q_def algebra_simps)
  then show "0.98 * b0 \<le> r * 1000 / (P * 30)"
    using P by (simp add: pos_le_divide_eq algebra_simps)
  have "r * 1000 < Q * (123 / 122) * 30 + 0.00324 * 30 * P" using 2 assms(1) by simp
  then have "r * 1000 < (b0 * (123 / 122) + 0.00324) * (P * 30)" by (simp add: Q_def algebra_simps)
  then show "r * 1000 / (P * 30) < b0 * (123 / 122) + 0.00324"
    using P by (simp add: pos_divide_less_eq algebra_simps)
qed

lemma estimateQuality_original_score:
  assumes "calculateBitrate t d 128 = Inr r" "w \<noteq> 0" "h \<noteq> 0"
  shows "\<exists>q. estimateQuality t d (Some w) (Some h) False False Original = Inr q
           \<and> score q = max 0 (min 100 (Math_round (fst (qualityBands (r * 1000 / (w * h * 30))))))"
proof -
  have t: "both_truthy (Some w) (Some h) = Some (w, h)"
    using assms(2,3) by (simp add: both_truthy_def)
  have o: "getTargetDimensions Original w h = None"
    by (simp add: getTargetDimensions_def)
  have a: "audioBitrateKbpsFor False False = 128"
    by (simp add: audioBitrateKbpsFor_def)
  obtain s0 l0 e0 where b: "qualityBands (r * 1000 / (w * h * 30)) = (s0, l0, e0)"
    by (cases "qualityBands (r * 1000 / (w * h * 30))") auto
  have "estimateQuality t d (Some w) (Some h) False False Original
          = Inr \<lparr>score = max 0 (min 100 (Math_round s0)), level = l0,
                 bitratePerPixel = r * 1000 / (w * h * 30),
                 estimatedQualityLoss = max 0 (min 100 (Math_round e0))\<rparr>"
    by (simp only: estimateQuality_def a assms(1) t o b Let_def sum.case option.case prod.case)
  with b show ?thesis by simp
qed

lemma bitratePerPixelForScore_checkpoints:
  "bitratePerPixelForScore 30 = 0.03" "bitratePerPixelForScore 50 = 0.06"
  "bitratePerPixelForScore 70 = 0.10" "bitratePerPixelForScore 90 = 0.15"
  by (simp_all add: bitratePerPixelForScore_def)

lemma round_trip_bpp:
  assumes d: "0 < d" and dims: "0 < w" "w \<le> 1920" "0 < h" "h \<le> 1080"
    and P: "76800 \<le> w * h"
    and big: "12.3 \<le> calculateTargetSizeForQuality s d (Some w) (Some h)"
  shows "\<exists>r. calculateBitrate (calculateTargetSizeForQuality s d (Some w) (Some h)) d 128 = Inr r
           \<and> 0.98 * bitratePerPixelForScore s \<le> r * 1000 / (w * h * 30)
           \<and> r * 1000 / (w * h * 30) < bitratePerPixelForScore s * (123 / 122) + 0.00324"
proof -
  define b0 where "b0 = bitratePerPixelForScore s"
  define V where "V = b0 * (w * h) * 30 / 1000"
  define T where "T = (V + 128) / 0.95"
  define S where "S = calculateTargetSizeForQuality s d (Some w) (Some h)"
  define A where "A = max 0.1 (S - min 2 (max 0.244140625 (S * 0.02)))"
  define r where "r = Math_floor ((A * 8192 / d - 128) * 0.95)"
  have S: "S = max 0.1 (Math_ceil (T * d / 8192 * 10) / 10)"
    unfolding S_def T_def V_def b0_def by (rule sizeForQuality_unscaled [OF dims])
  have big': "12.3 \<le> S" using big by (simp add: S_def)
  have S1: "T * d / 8192 \<le> S" and S2: "S < T * d / 8192 + 0.1"
    using rounded_up_size [of "T * d / 8192"] big' unfolding S by blast+
  have A1: "0.98 * S \<le> A" and A2: "A \<le> S"
    unfolding A_def using adjusted_large [OF big'] by blast+
  have Spos: "0 < S" using big' by simp
  have c: "calculateBitrate S d 128 = Inr r"
    unfolding r_def A_def by (rule calculateBitrate_ok [OF Spos d])
  have r1: "r \<le> (A * 8192 / d - 128) * 0.95" and r2: "(A * 8192 / d - 128) * 0.95 - 1 < r"
    unfolding r_def using Math_floor_bounds by blast+
  have T': "T = (V + 128) / 0.95" by (simp add: T_def)
  note rb = round_trip_rate_bounds [OF d T' S1 S2 big' A1 A2 r1 r2]
  have "0.98 * (b0 * (w * h) * 30 / 1000) \<le> r"
    and "r < (b0 * (w * h) * 30 / 1000) * (123 / 122) + 7.45"
    using rb by (simp_all only: V_def)
  from bpp_bounds [OF P this] c show ?thesis
    unfolding S_def b0_def by blast
qed

text \<open>
  Where the round trip does hold: for an input no larger than 1920 by 1080 with at least
  76800 pixels, a score of 30, 50, 70 or 90 and a duration for which the resolved size is
  at least 12.3 MB (so that the safety buffer is at most 2% of it), the estimate at the
  resolved size, with full audio and the cap \<open>original\<close>, has a score between one
  below and two above the score asked for. The bound on the size is sufficient, not
  sharp.
\<close>

lemma round_trip_within_two_for_large_targets:
  assumes s: "s \<in> {30, 50, 70, 90}"
    and d: "0 < d" and dims: "0 < w" "w \<le> 1920" "0 < h" "h \<le> 1080"
    and P: "76800 \<le> w * h"
    and big: "12.3 \<le> calculateTargetSizeForQuality s d (Some w) (Some h)"
  shows "\<exists>q. estimateQuality (calculateTargetSizeForQuality s d (Some w) (Some h)) d
                (Some w) (Some h) False False Original = Inr q
             \<and> s - 1 \<le> score q \<and> score q \<le> s + 2"
proof -
  from round_trip_bpp [OF d dims P big] obtain r where
    c: "calculateBitrate (calculateTargetSizeForQuality s d (Some w) (Some h)) d 128 = Inr r"
    and lo: "0.98 * bitratePerPixelForScore s \<le> r * 1000 / (w * h * 30)"
    and hi: "r * 1000 / (w * h * 30) < bitratePerPixelForScore s * (123 / 122) + 0.00324"
    by blast
  have wh: "w \<noteq> 0" "h \<noteq> 0" using dims by simp_all
  from estimateQuality_original_score [OF c wh] obtain q where
    q: "estimateQuality (calculateTargetSizeForQuality s d (Some w) (Some h)) d
          (Some w) (Some h) False False Original = Inr q"
    and sc: "score q = max 0 (min 100 (Math_round (fst (qualityBands (r * 1000 / (w * h * 30))))))"
    by blast
  let ?x = "fst (qualityBands (r * 1000 / (w * h * 30)))"
  from s consider "s = 30" | "s = 50" | "s = 70" | "s = 90" by auto
  then have "s - 1 \<le> score q \<and> score q \<le> s + 2"
  proof cases
    case 1
    from lo hi have "29 - 1 / 2 \<le> ?x" "?x < 32 + 1 / 2"
      unfolding 1 bitratePerPixelForScore_checkpoints by (rule bands_near_30)+
    then have "(30::real) - 1 \<le> max 0 (min 100 (Math_round ?x))
               \<and> max 0 (min 100 (Math_round ?x)) \<le> 30 + 2"
      by (intro clamp_round_bounds) simp_all
    then show ?thesis by (simp only: sc 1)
  next
    case 2
    from lo hi have "49 - 1 / 2 \<le> ?x" "?x < 52 + 1 / 2"
      unfolding 2 bitratePerPixelForScore_checkpoints by (rule bands_near_50)+
    then have "(50::real) - 1 \<le> max 0 (min 100 (Math_round ?x))
               \<and> max 0 (min 100 (Math_round ?x)) \<le> 50 + 2"
      by (intro clamp_round_bounds) simp_all
    then show ?thesis by (simp only: sc 2)
  next
    case 3
    from lo hi have "69 - 1 / 2 \<le> ?x" "?x < 72 + 1 / 2"
      unfolding 3 bitratePerPixelForScore_checkpoints by (rule bands_near_70)+
    then have "(70::real) - 1 \<le> max 0 (min 100 (Math_round ?x))
               \<and> max 0 (min 100 (Math_round ?x)) \<le> 70 + 2"
      by (intro clamp_round_bounds) simp_all
    then show ?thesis by (simp only: sc 3)
  next
    case 4
    from lo hi have "89 - 1 / 2 \<le> ?x" "?x < 92 + 1 / 2"
      unfolding 4 bitratePerPixelForScore_checkpoints by (rule bands_near_90)+
    then have "(90::real) - 1 \<le> max 0 (min 100 (Math_round ?x))
               \<and> max 0 (min 100 (Math_round ?x)) \<le> 90 + 2"
      by (intro clamp_round_bounds) simp_all
    then show ?thesis by (simp only: sc 4)
  qed
  with q show ?thesis by blast
qed

lemma size_short_clip: "calculateTargetSizeForQuality 70 1 (Some 1920) (Some 1080) = 0.9"
  by (simp add: calculateTargetSizeForQuality_def both_truthy_def bitratePerPixelForScore_def
      Math_ceil_def Let_def)

lemma size_4k: "calculateTargetSizeForQuality 70 90 (Some 3840) (Some 2160) = 33.5"
  by (simp add: calculateTargetSizeForQuality_def both_truthy_def bitratePerPixelForScore_def
      Math_ceil_def Math_round_def Let_def)

lemma rate_short_clip: "calculateBitrate 0.9 1 128 = Inr 4982"
  by (simp add: calculateBitrate_def Math_floor_def Let_def)

lemma rate_4k: "calculateBitrate (67 / 2) 90 128 = Inr 2717"
  by (simp add: calculateBitrate_def Math_floor_def Let_def)

lemma estimate_short_clip:
  "estimateQuality 0.9 1 (Some 1920) (Some 1080) False False Original
     = Inr \<lparr>score = 60, level = fair, bitratePerPixel = 2491 / 31104, estimatedQualityLoss = 32\<rparr>"
  by (simp add: estimateQuality_def audioBitrateKbpsFor_def rate_short_clip both_truthy_def
      getTargetDimensions_def qualityBands_def Math_round_def Let_def)

lemma estimate_4k:
  "estimateQuality 33.5 90 (Some 3840) (Some 2160) False False Original
     = Inr \<lparr>score = 11, level = very_poor, bitratePerPixel = 2717 / 248832,
            estimatedQualityLoss = 86\<rparr>"
  by (simp add: estimateQuality_def audioBitrateKbpsFor_def rate_4k both_truthy_def
      getTargetDimensions_def qualityBands_def Math_round_def Let_def)

text \<open>
  C3 at two inputs, for the score 70. For a one second clip at 1920 by 1080 the resolved
  size is 0.9 MB; the bitrate calculator takes the safety buffer off it, which the
  resolver has not added, and the estimate is 60. For a 90 second input of 3840 by 2160
  the resolver assumes an output scaled down to 720p, while the estimator under the cap
  \<open>original\<close> counts the pixels of the input: the resolved size is 33.5 MB and the
  estimate is 11.
\<close>

theorem quality_round_trip_fails:
  "calculateTargetSizeForQuality 70 1 (Some 1920) (Some 1080) = 0.9
   \<and> estimateQuality 0.9 1 (Some 1920) (Some 1080) False False Original
       = Inr \<lparr>score = 60, level = fair, bitratePerPixel = 2491 / 31104, estimatedQualityLoss = 32\<rparr>
   \<and> calculateTargetSizeForQuality 70 90 (Some 3840) (Some 2160) = 33.5
   \<and> estimateQuality 33.5 90 (Some 3840) (Some 2160) False False Original
       = Inr \<lparr>score = 11, level = very_poor, bitratePerPixel = 2717 / 248832,
              estimatedQualityLoss = 86\<rparr>"
  using size_short_clip estimate_short_clip size_4k estimate_4k
  by blast

end
